theory Spec2Isabelle
  imports
    Complex_Main
    "HOL-Library.Multiset"
    "HOL-Library.Word"
    "HOL-Library.Sublist"
    "HOL-Library.Monad_Syntax"
begin

section \<open>Data model (yolo\_detector.hpp)\<close>

text \<open>
  The embedding follows \<^verbatim>\<open>src/yolo_detector.cpp\<close>, \<^verbatim>\<open>src/yolo_detector.hpp\<close> and
  \<^verbatim>\<open>src/ffi_bridge.cpp\<close>.

  Conventions.
  \<^item> A C++ \<^verbatim>\<open>float\<close> is a value of the type \<open>cfloat\<close> below: NaN, an infinity or a
    real number. Comparisons, \<^verbatim>\<open>std::min\<close> and \<^verbatim>\<open>std::max\<close> are those of C++ on these
    values; the arithmetic rounds every result to the nearest number of the IEEE 754 binary32
    format. The one part of the source whose floats are described by real numbers is the
    input tensor that \<^verbatim>\<open>preprocess\<close> fills from the bytes of the image.
  \<^item> A C++ \<^verbatim>\<open>int\<close> and \<^verbatim>\<open>int64_t\<close> are modelled as \<^typ>\<open>int\<close>; the narrowing
    \<^verbatim>\<open>static_cast<int>\<close> of an \<^verbatim>\<open>int64_t\<close> is written out as the 32-bit wrap-around.
  \<^item> A read through a raw pointer or \<^verbatim>\<open>operator[]\<close> outside the buffer is undefined
    behaviour in C++, and so are the conversion of a \<^verbatim>\<open>float\<close> that has no \<^verbatim>\<open>int\<close> value
    and a call of \<^verbatim>\<open>std::sort\<close> with a comparator that is no strict weak ordering of the
    values; the model returns \<^term>\<open>None\<close> there.
  \<^item> The inference engine (ONNX Runtime), the image library (OpenCV), \<^verbatim>\<open>std::sort\<close> and
    \<^verbatim>\<open>std::exp\<close> are external; where a function of the source calls them, the model takes
    the call as a function argument. For the first two the result \<^term>\<open>None\<close> stands for a
    thrown exception.
  \<^item> \<^verbatim>\<open>LOGD\<close> expands to an empty statement (\<^verbatim>\<open>YOLO_DEBUG\<close> is 0) and is left out.
\<close>

subsection \<open>Single-precision floats\<close>

text \<open>
  The values of a \<^verbatim>\<open>float\<close>. Every binary32 number is a real number; the tensors that the
  inference engine returns may hold any of these values. The two zeros of the format are one
  value here: they compare equal, and the only operation that tells them apart, a division
  by zero, has in the source no divisor that can be the negative zero.
\<close>

datatype cfloat = NaN | NegInf | Fin real | PosInf

text \<open>The operator \<^verbatim>\<open><\<close>: false as soon as one side is NaN.\<close>

fun flt :: "cfloat \<Rightarrow> cfloat \<Rightarrow> bool" where
  "flt (Fin a) (Fin b) = (a < b)"
| "flt NegInf (Fin b) = True"
| "flt NegInf PosInf = True"
| "flt (Fin a) PosInf = True"
| "flt _ _ = False"

text \<open>The operator \<^verbatim>\<open><=\<close>.\<close>

fun fle :: "cfloat \<Rightarrow> cfloat \<Rightarrow> bool" where
  "fle (Fin a) (Fin b) = (a \<le> b)"
| "fle NaN b = False"
| "fle a NaN = False"
| "fle NegInf b = True"
| "fle a PosInf = True"
| "fle a b = False"

definition std_min :: "cfloat \<Rightarrow> cfloat \<Rightarrow> cfloat" where
  \<comment> \<open>\<^verbatim>\<open>std::min(a, b)\<close> is \<^verbatim>\<open>(b < a) ? b : a\<close>.\<close>
  "std_min a b = (if flt b a then b else a)"

definition std_max :: "cfloat \<Rightarrow> cfloat \<Rightarrow> cfloat" where
  \<comment> \<open>\<^verbatim>\<open>std::max(a, b)\<close> is \<^verbatim>\<open>(a < b) ? b : a\<close>.\<close>
  "std_max a b = (if flt a b then b else a)"

text \<open>
  Rounding to binary32, to nearest with ties to the even significand. A number whose binary
  exponent is \<open>e\<close> (not below \<open>-126\<close>, the exponent of the subnormal numbers) is rounded to a
  multiple of \<open>2 ^ (e - 23)\<close>; a result of magnitude \<open>2 ^ 128\<close> is an overflow to
  infinity.
\<close>

definition round_half_even :: "real \<Rightarrow> int" where
  "round_half_even q =
     (if q - of_int \<lfloor>q\<rfloor> < 1 / 2 then \<lfloor>q\<rfloor>
      else if 1 / 2 < q - of_int \<lfloor>q\<rfloor> then \<lfloor>q\<rfloor> + 1
      else if even \<lfloor>q\<rfloor> then \<lfloor>q\<rfloor> else \<lfloor>q\<rfloor> + 1)"

definition round_at :: "int \<Rightarrow> real \<Rightarrow> real" where
  "round_at e x = of_int (round_half_even (x / 2 powi (e - 23))) * 2 powi (e - 23)"

definition round_to_float :: "real \<Rightarrow> cfloat" where
  "round_to_float x =
     (if x = 0 then Fin 0
      else (let y = round_at (max \<lfloor>log 2 \<bar>x\<bar>\<rfloor> (- 126)) x
            in if \<bar>y\<bar> < 2 ^ 128 then Fin y
               else if 0 < x then PosInf else NegInf))"

text \<open>
  The arithmetic of IEEE 754: the exact result, rounded; NaN from a NaN, from the difference
  of equal infinities, from zero times infinity, and from the quotients \<open>0 / 0\<close> and
  \<open>\<infinity> / \<infinity>\<close>.
\<close>

definition is_positive :: "cfloat \<Rightarrow> bool" where
  "is_positive a = flt (Fin 0) a"

definition signed_inf :: "bool \<Rightarrow> cfloat" where
  "signed_inf positive = (if positive then PosInf else NegInf)"

fun fneg :: "cfloat \<Rightarrow> cfloat" where
  "fneg NaN = NaN"
| "fneg NegInf = PosInf"
| "fneg (Fin a) = Fin (- a)"
| "fneg PosInf = NegInf"

fun fadd :: "cfloat \<Rightarrow> cfloat \<Rightarrow> cfloat" where
  "fadd (Fin a) (Fin b) = round_to_float (a + b)"
| "fadd NaN b = NaN"
| "fadd a NaN = NaN"
| "fadd PosInf NegInf = NaN"
| "fadd NegInf PosInf = NaN"
| "fadd PosInf b = PosInf"
| "fadd a PosInf = PosInf"
| "fadd NegInf b = NegInf"
| "fadd a NegInf = NegInf"

definition fsub :: "cfloat \<Rightarrow> cfloat \<Rightarrow> cfloat" where
  "fsub a b = fadd a (fneg b)"

fun fmul :: "cfloat \<Rightarrow> cfloat \<Rightarrow> cfloat" where
  "fmul (Fin a) (Fin b) = round_to_float (a * b)"
| "fmul NaN b = NaN"
| "fmul a NaN = NaN"
| "fmul a b =
     (if a = Fin 0 \<or> b = Fin 0 then NaN else signed_inf (is_positive a = is_positive b))"

fun fdiv :: "cfloat \<Rightarrow> cfloat \<Rightarrow> cfloat" where
  "fdiv (Fin a) (Fin b) =
     (if b = 0 then (if a = 0 then NaN else signed_inf (0 < a)) else round_to_float (a / b))"
| "fdiv NaN b = NaN"
| "fdiv a NaN = NaN"
| "fdiv (Fin a) b = Fin 0"
| "fdiv a (Fin b) = signed_inf (is_positive a = (0 \<le> b))"
| "fdiv a b = NaN"

text \<open>
  \<^verbatim>\<open>std::exp\<close> on a \<^verbatim>\<open>float\<close> is a function of the library, whose results the standard
  does not fix to the last bit: the decoder that calls it takes it as an argument \<open>std_exp\<close>,
  and nothing is assumed of it. The examples use the exponential rounded to the nearest
  \<^verbatim>\<open>float\<close>, and only at 0, where every library returns 1.
\<close>

fun rounded_exp :: "cfloat \<Rightarrow> cfloat" where
  "rounded_exp NaN = NaN"
| "rounded_exp NegInf = Fin 0"
| "rounded_exp (Fin a) = round_to_float (exp a)"
| "rounded_exp PosInf = PosInf"

definition int_to_float :: "int \<Rightarrow> cfloat" where
  \<comment> \<open>\<^verbatim>\<open>static_cast<float>(i)\<close>, also where an \<^verbatim>\<open>int\<close> operand meets a \<^verbatim>\<open>float\<close>.\<close>
  "int_to_float i = round_to_float (real_of_int i)"

definition float_to_int :: "cfloat \<Rightarrow> int option" where
  \<comment> \<open>\<^verbatim>\<open>static_cast<int>(v)\<close>: truncation towards zero; undefined when the truncated value
      is no \<^verbatim>\<open>int\<close>, as for NaN and the infinities.\<close>
  "float_to_int v =
     (case v of
        Fin r \<Rightarrow>
          (let t = (if 0 \<le> r then \<lfloor>r\<rfloor> else \<lceil>r\<rceil>)
           in if - 2147483648 \<le> t \<and> t \<le> 2147483647 then Some t else None)
      | _ \<Rightarrow> None)"

subsection \<open>Detections and the detector\<close>

record Detection =
  class_id :: int
  class_name :: string
  confidence :: cfloat
  x1 :: cfloat
  y1 :: cfloat
  x2 :: cfloat
  y2 :: cfloat

datatype ModelType = YOLOV8 | YOLOX | PPYOLOE

record YoloDetector =
  m_initialized :: bool
  m_input_width :: int
  m_input_height :: int
  m_num_classes :: int
  m_model_type :: ModelType
  m_class_names :: "string list"
  m_input_names_str :: "string list"
  m_output_names_str :: "string list"

subsection \<open>Conversions and integer division of C++\<close>

definition static_cast_int :: "int \<Rightarrow> int" where
  \<comment> \<open>\<^verbatim>\<open>static_cast<int>(v)\<close> for an \<^verbatim>\<open>int64_t\<close> or \<^verbatim>\<open>size_t\<close> value \<open>v\<close>.\<close>
  "static_cast_int v = (v + 2147483648) mod 4294967296 - 2147483648"

definition c_div :: "int \<Rightarrow> int \<Rightarrow> int" where
  \<comment> \<open>The operator \<^verbatim>\<open>/\<close> on \<^verbatim>\<open>int\<close>: the quotient truncated towards zero.\<close>
  "c_div a b = (if (a < 0) = (b < 0) then \<bar>a\<bar> div \<bar>b\<bar> else - (\<bar>a\<bar> div \<bar>b\<bar>))"

function nat_to_string :: "nat \<Rightarrow> string" where
  "nat_to_string n =
     (if n < 10 then [char_of (48 + n)]
      else nat_to_string (n div 10) @ [char_of (48 + n mod 10)])"
  by pat_completeness auto
termination
  by (relation "measure (\<lambda>n. n)") auto

declare nat_to_string.simps [simp del]

definition to_string :: "int \<Rightarrow> string" where
  \<comment> \<open>\<^verbatim>\<open>std::to_string\<close> on an \<^verbatim>\<open>int\<close>.\<close>
  "to_string v = (if v < 0 then CHR ''-'' # nat_to_string (nat (- v)) else nat_to_string (nat v))"

subsection \<open>Construction, initialisation and class names\<close>

definition COCO_CLASSES :: "string list" where
  "COCO_CLASSES =
    [''person'', ''bicycle'', ''car'', ''motorcycle'', ''airplane'', ''bus'', ''train'',
     ''truck'', ''boat'', ''traffic light'', ''fire hydrant'', ''stop sign'',
     ''parking meter'', ''bench'', ''bird'', ''cat'', ''dog'', ''horse'', ''sheep'', ''cow'',
     ''elephant'', ''bear'', ''zebra'', ''giraffe'', ''backpack'', ''umbrella'', ''handbag'',
     ''tie'', ''suitcase'', ''frisbee'', ''skis'', ''snowboard'', ''sports ball'', ''kite'',
     ''baseball bat'', ''baseball glove'', ''skateboard'', ''surfboard'', ''tennis racket'',
     ''bottle'', ''wine glass'', ''cup'', ''fork'', ''knife'', ''spoon'', ''bowl'', ''banana'',
     ''apple'', ''sandwich'', ''orange'', ''broccoli'', ''carrot'', ''hot dog'', ''pizza'',
     ''donut'', ''cake'', ''chair'', ''couch'', ''potted plant'', ''bed'', ''dining table'',
     ''toilet'', ''tv'', ''laptop'', ''mouse'', ''remote'', ''keyboard'', ''cell phone'',
     ''microwave'', ''oven'', ''toaster'', ''sink'', ''refrigerator'', ''book'', ''clock'',
     ''vase'', ''scissors'', ''teddy bear'', ''hair drier'', ''toothbrush'']"

definition YoloDetector_new :: YoloDetector where
  \<comment> \<open>The constructor \<^verbatim>\<open>YoloDetector::YoloDetector()\<close>.\<close>
  "YoloDetector_new =
     \<lparr> m_initialized = False, m_input_width = 640, m_input_height = 640, m_num_classes = 80,
       m_model_type = YOLOX, m_class_names = COCO_CLASSES,
       m_input_names_str = [], m_output_names_str = [] \<rparr>"

definition release :: "YoloDetector \<Rightarrow> YoloDetector" where
  "release st = st\<lparr>m_initialized := False\<rparr>"

text \<open>
  One round of the loop over the model's inputs in \<^verbatim>\<open>init\<close>: the state of the loop is the flag
  \<^verbatim>\<open>has_scale_factor_input\<close> and the detector; an input is its name and its shape.
\<close>

definition init_input :: "string \<times> int list \<Rightarrow> bool \<times> YoloDetector \<Rightarrow> bool \<times> YoloDetector" where
  "init_input inp acc =
     (let name_str = fst inp; shape = snd inp; has_scale_factor_input = fst acc;
          st = (snd acc)\<lparr>m_input_names_str := m_input_names_str (snd acc) @ [name_str]\<rparr>
      in if sublist ''scale'' name_str then (True, st)
         else if length shape = 4 then
           (let st1 = (if shape ! 2 > 0
                       then st\<lparr>m_input_height := static_cast_int (shape ! 2)\<rparr> else st);
                st2 = (if shape ! 3 > 0
                       then st1\<lparr>m_input_width := static_cast_int (shape ! 3)\<rparr> else st1)
            in (has_scale_factor_input, st2))
         else (has_scale_factor_input, st))"

text \<open>One round of the loop over the model's outputs in \<^verbatim>\<open>init\<close>.\<close>

definition init_output :: "string \<times> int list \<Rightarrow> YoloDetector \<Rightarrow> YoloDetector" where
  "init_output outp st0 =
     (let shape = snd outp;
          st = st0\<lparr>m_output_names_str := m_output_names_str st0 @ [fst outp]\<rparr>;
          dim1 = (if length shape > 1 then shape ! 1 else 0);
          dim2 = (if length shape > 2 then shape ! 2 else 0)
      in if m_model_type st = PPYOLOE then st
         else if length shape \<ge> 2 then
           (if dim1 = 6 \<or> dim2 = 6 then st\<lparr>m_model_type := PPYOLOE, m_num_classes := 80\<rparr>
            else if dim2 = 85 \<or> dim1 = 85 then st\<lparr>m_model_type := YOLOX, m_num_classes := 80\<rparr>
            else if dim1 = 84 \<or> dim2 = 84 then st\<lparr>m_model_type := YOLOV8, m_num_classes := 80\<rparr>
            else (let features = (if dim1 < dim2 then dim1 else dim2)
                  in if features > 5
                     then st\<lparr>m_model_type := YOLOX,
                             m_num_classes := static_cast_int (features - 5)\<rparr>
                     else if features > 0
                     then st\<lparr>m_model_type := YOLOV8,
                             m_num_classes := static_cast_int (features - 4)\<rparr>
                     else st))
         else st)"

text \<open>
  \<^verbatim>\<open>init\<close>. The session is created by ONNX Runtime; its argument here is what the session reports
  (the inputs and the outputs, each a name and a shape), or \<^term>\<open>None\<close> when creating the
  session throws, in which case \<^verbatim>\<open>init\<close> returns \<^verbatim>\<open>false\<close>.
\<close>

definition init ::
  "YoloDetector \<Rightarrow> ((string \<times> int list) list \<times> (string \<times> int list) list) option
     \<Rightarrow> bool \<times> YoloDetector" where
  "init st session =
     (case session of
        None \<Rightarrow> (False, st)
      | Some (inputs, outputs) \<Rightarrow>
          (let after_inputs = fold init_input inputs (False, st);
               has_scale_factor_input = fst after_inputs;
               st1 = snd after_inputs;
               st2 = (if has_scale_factor_input
                      then st1\<lparr>m_model_type := PPYOLOE, m_num_classes := 80\<rparr> else st1);
               st3 = fold init_output outputs st2
           in (True, st3\<lparr>m_initialized := True\<rparr>)))"

definition setModelType :: "YoloDetector \<Rightarrow> ModelType \<Rightarrow> YoloDetector" where
  "setModelType st type = st\<lparr>m_model_type := type\<rparr>"

definition setClassNames :: "YoloDetector \<Rightarrow> string list \<Rightarrow> YoloDetector" where
  "setClassNames st names =
     st\<lparr>m_class_names := names, m_num_classes := static_cast_int (int (length names))\<rparr>"

subsection \<open>The call boundary (ffi\_bridge.cpp)\<close>

text \<open>
  The global \<^verbatim>\<open>g_detector\<close> is a pointer: \<^term>\<open>None\<close> is \<^verbatim>\<open>nullptr\<close>.
  \<^verbatim>\<open>yolo_set_classes\<close> scans its argument for pairs of double quotes and keeps the non-empty
  texts between them.
\<close>

function parse_names :: "string \<Rightarrow> string list" where
  "parse_names json =
     (case dropWhile (\<lambda>c. c \<noteq> CHR 0x22) json of
        [] \<Rightarrow> []
      | q # from_start \<Rightarrow>
          (case dropWhile (\<lambda>c. c \<noteq> CHR 0x22) from_start of
             [] \<Rightarrow> []
           | q' # after_end \<Rightarrow>
               (let name = takeWhile (\<lambda>c. c \<noteq> CHR 0x22) from_start
                in (if name \<noteq> [] then [name] else []) @ parse_names after_end)))"
  by pat_completeness auto
termination
proof (relation "measure length")
  fix json :: string and q from_start q' after_end
  assume a: "dropWhile (\<lambda>c. c \<noteq> CHR 0x22) json = q # from_start"
    and b: "dropWhile (\<lambda>c. c \<noteq> CHR 0x22) from_start = q' # after_end"
  have "length (dropWhile (\<lambda>c. c \<noteq> CHR 0x22) json) \<le> length json"
    by (rule length_dropWhile_le)
  moreover have "length (dropWhile (\<lambda>c. c \<noteq> CHR 0x22) from_start) \<le> length from_start"
    by (rule length_dropWhile_le)
  ultimately show "(after_end, json) \<in> measure length"
    using a b by simp
qed simp

declare parse_names.simps [simp del]

definition yolo_init ::
  "YoloDetector option \<Rightarrow> ((string \<times> int list) list \<times> (string \<times> int list) list) option
     \<Rightarrow> int \<times> YoloDetector option" where
  "yolo_init g_detector session =
     (let r = init YoloDetector_new session
      in (if fst r then 1 else 0, Some (snd r)))"

definition yolo_set_classes :: "YoloDetector option \<Rightarrow> string \<Rightarrow> YoloDetector option" where
  "yolo_set_classes g_detector class_names_json =
     (case g_detector of
        None \<Rightarrow> None
      | Some st \<Rightarrow>
          (let names = parse_names class_names_json
           in if names \<noteq> [] then Some (setClassNames st names) else Some st))"

section \<open>Preprocessing (YoloDetector::preprocess)\<close>

text \<open>
  A \<^verbatim>\<open>cv::Mat\<close> of type \<^verbatim>\<open>CV_8UC3\<close>: its size and the pixel at row \<open>y\<close>, column \<open>x\<close>, a
  \<^verbatim>\<open>cv::Vec3b\<close> of three bytes. Row and column counters of the loops are never negative and
  are natural numbers here.
\<close>

type_synonym Vec3b = "8 word \<times> 8 word \<times> 8 word"

record Mat =
  rows :: int
  cols :: int
  pixel_at :: "nat \<Rightarrow> nat \<Rightarrow> Vec3b"

definition gray_canvas :: "int \<Rightarrow> int \<Rightarrow> Mat" where
  \<comment> \<open>\<^verbatim>\<open>cv::Mat(h, w, CV_8UC3, cv::Scalar(114, 114, 114))\<close>\<close>
  "gray_canvas h w = \<lparr> rows = h, cols = w, pixel_at = (\<lambda>y x. (114, 114, 114)) \<rparr>"

definition copyTo_rect :: "Mat \<Rightarrow> Mat \<Rightarrow> int \<Rightarrow> int \<Rightarrow> int \<Rightarrow> int \<Rightarrow> Mat" where
  \<comment> \<open>\<^verbatim>\<open>src.copyTo(dst(cv::Rect(rx, ry, rw, rh)))\<close>: the pixels of the rectangle are replaced.\<close>
  "copyTo_rect src dst rx ry rw rh =
     dst\<lparr>pixel_at := (\<lambda>y x.
        if rx \<le> int x \<and> int x < rx + rw \<and> ry \<le> int y \<and> int y < ry + rh
        then pixel_at src (nat (int y - ry)) (nat (int x - rx))
        else pixel_at dst y x)\<rparr>"

definition BGR2RGB :: "Mat \<Rightarrow> Mat" where
  \<comment> \<open>\<^verbatim>\<open>cv::cvtColor(m, rgb, cv::COLOR_BGR2RGB)\<close>: the first and third channel change place.\<close>
  "BGR2RGB m = m\<lparr>pixel_at := (\<lambda>y x. case pixel_at m y x of (b, g, r) \<Rightarrow> (r, g, b))\<rparr>"

text \<open>
  The first half of \<^verbatim>\<open>preprocess\<close>: the resized image and the values written to the reference
  parameters \<^verbatim>\<open>scale\<close>, \<^verbatim>\<open>pad_x\<close>, \<^verbatim>\<open>pad_y\<close>. The argument \<open>cv_resize m w h\<close> is
  \<^verbatim>\<open>cv::resize(m, dst, cv::Size(w, h), 0, 0, cv::INTER_LINEAR)\<close>. The function returns its
  values, or leaves by an exception of OpenCV, or has undefined behaviour.
\<close>

datatype 'a outcome = Returns 'a | Throws | Undefined

definition letterbox ::
  "YoloDetector \<Rightarrow> (Mat \<Rightarrow> int \<Rightarrow> int \<Rightarrow> Mat option) \<Rightarrow> Mat \<Rightarrow> int \<Rightarrow> int
     \<Rightarrow> (Mat \<times> cfloat \<times> int \<times> int) outcome" where
  "letterbox st cv_resize img width height =
     (if m_model_type st = PPYOLOE then
        (case cv_resize img (m_input_width st) (m_input_height st) of
           None \<Rightarrow> Throws
         | Some resized_final \<Rightarrow> Returns (resized_final, Fin 1, 0, 0))
      else
        (let scale_x = fdiv (int_to_float (m_input_width st)) (int_to_float width);
             scale_y = fdiv (int_to_float (m_input_height st)) (int_to_float height);
             scale = std_min scale_x scale_y
         in case float_to_int (fmul (int_to_float width) scale) of
              None \<Rightarrow> Undefined
            | Some new_width \<Rightarrow>
                (case float_to_int (fmul (int_to_float height) scale) of
                   None \<Rightarrow> Undefined
                 | Some new_height \<Rightarrow>
                     (let pad_x = c_div (m_input_width st - new_width) 2;
                          pad_y = c_div (m_input_height st - new_height) 2
                      in case cv_resize img new_width new_height of
                           None \<Rightarrow> Throws
                         | Some resized \<Rightarrow>
                             Returns (copyTo_rect resized
                                        (gray_canvas (m_input_height st) (m_input_width st))
                                        pad_x pad_y new_width new_height,
                                      scale, pad_x, pad_y)))))"

text \<open>
  The second half of \<^verbatim>\<open>preprocess\<close>: the tensor, a vector of \<open>3 * H * W\<close> floats written by
  index.
\<close>

definition write_pixel :: "nat \<Rightarrow> nat \<Rightarrow> real \<times> real \<times> real \<Rightarrow> real list \<Rightarrow> real list" where
  "write_pixel channel_size idx v tensor =
     (case v of (v0, v1, v2) \<Rightarrow>
        tensor[0 * channel_size + idx := v0,
               1 * channel_size + idx := v1,
               2 * channel_size + idx := v2])"

definition to_chw :: "YoloDetector \<Rightarrow> Mat \<Rightarrow> real list" where
  "to_chw st resized_final =
     (let W = nat (m_input_width st); H = nat (m_input_height st);
          channel_size = H * W;
          tensor = replicate (3 * H * W) 0
      in if m_model_type st = YOLOX then
           fold (\<lambda>y. fold (\<lambda>x.
                   case pixel_at resized_final y x of (p0, p1, p2) \<Rightarrow>
                     write_pixel channel_size (y * W + x)
                       (real (unat p0), real (unat p1), real (unat p2)))
                 [0..<W])
             [0..<H] tensor
         else
           (let rgb = BGR2RGB resized_final
            in fold (\<lambda>y. fold (\<lambda>x.
                      case pixel_at rgb y x of (p0, p1, p2) \<Rightarrow>
                        write_pixel channel_size (y * W + x)
                          (real (unat p0) / 255, real (unat p1) / 255, real (unat p2) / 255))
                    [0..<W])
                 [0..<H] tensor))"

definition preprocess ::
  "YoloDetector \<Rightarrow> (Mat \<Rightarrow> int \<Rightarrow> int \<Rightarrow> Mat option) \<Rightarrow> Mat \<Rightarrow> int \<Rightarrow> int
     \<Rightarrow> (real list \<times> cfloat \<times> int \<times> int) outcome" where
  "preprocess st cv_resize img width height =
     (case letterbox st cv_resize img width height of
        Undefined \<Rightarrow> Undefined
      | Throws \<Rightarrow> Throws
      | Returns (resized_final, scale, pad_x, pad_y) \<Rightarrow>
          Returns (to_chw st resized_final, scale, pad_x, pad_y))"

section \<open>Non-maximum suppression (YoloDetector::iou, YoloDetector::nms)\<close>

definition inter_area :: "Detection \<Rightarrow> Detection \<Rightarrow> cfloat" where
  "inter_area a b =
     (let ix1 = std_max (x1 a) (x1 b);
          iy1 = std_max (y1 a) (y1 b);
          ix2 = std_min (x2 a) (x2 b);
          iy2 = std_min (y2 a) (y2 b)
      in fmul (std_max (Fin 0) (fsub ix2 ix1)) (std_max (Fin 0) (fsub iy2 iy1)))"

definition union_area :: "Detection \<Rightarrow> Detection \<Rightarrow> cfloat" where
  "union_area a b =
     (let a_area = fmul (fsub (x2 a) (x1 a)) (fsub (y2 a) (y1 a));
          b_area = fmul (fsub (x2 b) (x1 b)) (fsub (y2 b) (y1 b))
      in fsub (fadd a_area b_area) (inter_area a b))"

definition iou :: "Detection \<Rightarrow> Detection \<Rightarrow> cfloat" where
  "iou a b =
     (if flt (Fin 0) (union_area a b) then fdiv (inter_area a b) (union_area a b) else Fin 0)"

text \<open>
  The inner loop over \<open>j > i\<close>: every later detection carries its flag \<^verbatim>\<open>suppressed[j]\<close>.
\<close>

definition suppress_later ::
  "cfloat \<Rightarrow> Detection \<Rightarrow> (bool \<times> Detection) list \<Rightarrow> (bool \<times> Detection) list" where
  "suppress_later iou_threshold di later =
     map (\<lambda>(suppressed_j, dj).
            if suppressed_j then (suppressed_j, dj)
            else if class_id di = class_id dj
                 then (if flt iou_threshold (iou di dj) then (True, dj) else (suppressed_j, dj))
                 else (suppressed_j, dj))
         later"

text \<open>The outer loop over \<open>i\<close>, on the detections from \<open>i\<close> on with their flags.\<close>

function nms_loop :: "cfloat \<Rightarrow> (bool \<times> Detection) list \<Rightarrow> Detection list" where
  "nms_loop iou_threshold [] = []"
| "nms_loop iou_threshold ((suppressed_i, di) # later) =
     (if suppressed_i then nms_loop iou_threshold later
      else di # nms_loop iou_threshold (suppress_later iou_threshold di later))"
  by pat_completeness auto
termination
  by (relation "measure (\<lambda>(t, ps). length ps)") (auto simp: suppress_later_def)

text \<open>
  \<^verbatim>\<open>std::sort\<close> with the comparator \<^verbatim>\<open>a.confidence > b.confidence\<close>. The C++ standard
  requires of the comparator that it is a strict weak ordering of the values sorted, and the
  behaviour is undefined otherwise. The comparator orders the confidences unless one of them
  is NaN: a NaN is equivalent to every value, so that the equivalence is transitive only if
  no two other confidences differ.
\<close>

definition comparator_strict_weak :: "Detection list \<Rightarrow> bool" where
  "comparator_strict_weak detections \<longleftrightarrow>
     (\<forall>d \<in> set detections. confidence d \<noteq> NaN)
   \<or> (\<forall>a \<in> set detections. \<forall>b \<in> set detections. \<not> flt (confidence a) (confidence b))"

text \<open>
  \<^verbatim>\<open>nms\<close>. The argument \<open>std_sort\<close> is the sorting function of the C++ library in use.
\<close>

definition nms ::
  "(Detection list \<Rightarrow> Detection list) \<Rightarrow> Detection list \<Rightarrow> cfloat \<Rightarrow> Detection list option" where
  "nms std_sort detections iou_threshold =
     (if comparator_strict_weak detections
      then Some (nms_loop iou_threshold (map (\<lambda>d. (False, d)) (std_sort detections)))
      else None)"

text \<open>
  What the standard fixes of the result of \<^verbatim>\<open>std::sort\<close>: it is a permutation of the range
  in which no element is ordered before an earlier one, here no confidence is above an
  earlier one. The order of detections of equal confidence is left open.
\<close>

definition sorts_descending :: "(Detection list \<Rightarrow> Detection list) \<Rightarrow> bool" where
  "sorts_descending std_sort \<longleftrightarrow>
     (\<forall>detections. comparator_strict_weak detections \<longrightarrow>
        mset (std_sort detections) = mset detections
      \<and> sorted_wrt (\<lambda>a b. \<not> flt (confidence a) (confidence b)) (std_sort detections))"

text \<open>
  Two sorting functions within this contract. The insertion sort takes the detections from
  left to right and moves each to the left past the detections of lower confidence; it keeps
  detections of equal confidence in the order they had. The second function returns them in
  the opposite order.
\<close>

fun insert_desc :: "Detection \<Rightarrow> Detection list \<Rightarrow> Detection list" where
  "insert_desc d [] = [d]"
| "insert_desc d (e # es) =
     (if flt (confidence e) (confidence d) then d # e # es else e # insert_desc d es)"

definition insertion_sort :: "Detection list \<Rightarrow> Detection list" where
  "insertion_sort detections = fold insert_desc detections []"

definition reversing_sort :: "Detection list \<Rightarrow> Detection list" where
  "reversing_sort detections = insertion_sort (rev detections)"

section \<open>Decoding the output tensor (YoloDetector::postprocess)\<close>

definition rd :: "cfloat list \<Rightarrow> int \<Rightarrow> cfloat option" where
  \<comment> \<open>\<^verbatim>\<open>output[k]\<close>, a read through the pointer to the \<open>length output\<close> floats of the tensor.\<close>
  "rd output k = (if 0 \<le> k \<and> k < int (length output) then Some (output ! nat k) else None)"

definition vec_at :: "'a list \<Rightarrow> int \<Rightarrow> 'a option" where
  \<comment> \<open>\<^verbatim>\<open>v[i]\<close> on a \<^verbatim>\<open>std::vector\<close>.\<close>
  "vec_at v i = (if 0 \<le> i \<and> i < int (length v) then Some (v ! nat i) else None)"

definition output_dims :: "int list \<Rightarrow> nat \<Rightarrow> (int \<times> int) option" where
  \<comment> \<open>\<^verbatim>\<open>dim1\<close> and \<^verbatim>\<open>dim2\<close>; \<^term>\<open>None\<close> is the early return on an empty shape.\<close>
  "output_dims output_shape output_count =
     (if length output_shape = 2 then Some (output_shape ! 0, output_shape ! 1)
      else if length output_shape \<ge> 3 then Some (output_shape ! 1, output_shape ! 2)
      else if length output_shape = 1 then Some (int output_count, 0)
      else None)"

definition clamp_to :: "int \<Rightarrow> cfloat \<Rightarrow> cfloat" where
  \<comment> \<open>\<^verbatim>\<open>std::max(0.0f, std::min(v, static_cast<float>(bound)))\<close>\<close>
  "clamp_to bound v = std_max (Fin 0) (std_min v (int_to_float bound))"

text \<open>
  The three decoders end in the same statements: the four coordinates are clamped and the
  detection is filled in, with the name looked up in \<^verbatim>\<open>m_class_names\<close>.
\<close>

definition clamped_detection ::
  "YoloDetector \<Rightarrow> int \<Rightarrow> int \<Rightarrow> int \<Rightarrow> cfloat \<Rightarrow> cfloat \<Rightarrow> cfloat \<Rightarrow> cfloat \<Rightarrow> cfloat
     \<Rightarrow> Detection" where
  "clamped_detection st original_width original_height cls conf bx1 by1 bx2 by2 =
     \<lparr> class_id = cls,
       class_name = (if cls < int (length (m_class_names st))
                     then m_class_names st ! nat cls
                     else ''class_'' @ to_string cls),
       confidence = conf,
       x1 = clamp_to original_width bx1,
       y1 = clamp_to original_height by1,
       x2 = clamp_to original_width bx2,
       y2 = clamp_to original_height by2 \<rparr>"

text \<open>
  A loop \<^verbatim>\<open>for (int i = 0; i < n; i++)\<close> over boxes. The body at \<open>i\<close> has undefined
  behaviour (\<^term>\<open>None\<close>), leaves the round with \<^verbatim>\<open>continue\<close> (\<^term>\<open>Some None\<close>) or pushes a
  detection.
\<close>

function for_boxes ::
  "(int \<Rightarrow> Detection option option) \<Rightarrow> int \<Rightarrow> int \<Rightarrow> Detection list \<Rightarrow> Detection list option" where
  "for_boxes body n i detections =
     (if i < n then
        (case body i of
           None \<Rightarrow> None
         | Some None \<Rightarrow> for_boxes body n (i + 1) detections
         | Some (Some det) \<Rightarrow> for_boxes body n (i + 1) (detections @ [det]))
      else Some detections)"
  by pat_completeness auto
termination
  by (relation "measure (\<lambda>(body, n, i, detections). nat (n - i))") auto

declare for_boxes.simps [simp del]

text \<open>
  The search for the best class: \<^verbatim>\<open>for (int c = 0; c < n; c++)\<close> over the scores that
  \<open>score_at\<close> reads, with the running \<^verbatim>\<open>max_score\<close> and \<^verbatim>\<open>max_class\<close>.
\<close>

function class_loop ::
  "(int \<Rightarrow> cfloat option) \<Rightarrow> int \<Rightarrow> int \<Rightarrow> cfloat \<times> int \<Rightarrow> (cfloat \<times> int) option" where
  "class_loop score_at n c best =
     (if c < n then
        (case score_at c of
           None \<Rightarrow> None
         | Some score \<Rightarrow>
             class_loop score_at n (c + 1) (if flt (fst best) score then (score, c) else best))
      else Some best)"
  by pat_completeness auto
termination
  by (relation "measure (\<lambda>(score_at, n, c, best). nat (n - c))") auto

declare class_loop.simps [simp del]

subsection \<open>PP-YOLOE\<close>

definition ppyoloe_layout :: "int list \<Rightarrow> int \<Rightarrow> int \<Rightarrow> nat \<Rightarrow> bool \<times> int" where
  \<comment> \<open>The values of \<^verbatim>\<open>transposed\<close> and \<^verbatim>\<open>num_detections\<close>.\<close>
  "ppyoloe_layout output_shape dim1 dim2 output_count =
     (if length output_shape = 2 then
        (if dim2 = 6 then (False, static_cast_int dim1)
         else if dim1 = 6 then (True, static_cast_int dim2)
         else (False, static_cast_int (int (output_count div 6))))
      else if length output_shape \<ge> 3 then
        (if dim1 = 6 \<and> dim2 > 0 then (True, static_cast_int dim2)
         else if dim2 = 6 \<and> dim1 > 0 then (False, static_cast_int dim1)
         else if dim1 = 6 then (True, static_cast_int (int (output_count div 6)))
         else (False, 0))
      else (False, static_cast_int (int (output_count div 6))))"

definition ppyoloe_box ::
  "YoloDetector \<Rightarrow> cfloat list \<Rightarrow> int \<Rightarrow> int \<Rightarrow> cfloat \<Rightarrow> int \<Rightarrow> Detection option option" where
  "ppyoloe_box st output original_width original_height conf_threshold i =
     do {
       d0 \<leftarrow> rd output (i * 6 + 0);
       cls \<leftarrow> float_to_int d0;
       score \<leftarrow> rd output (i * 6 + 1);
       bx1 \<leftarrow> rd output (i * 6 + 2);
       by1 \<leftarrow> rd output (i * 6 + 3);
       bx2 \<leftarrow> rd output (i * 6 + 4);
       by2 \<leftarrow> rd output (i * 6 + 5);
       if flt score conf_threshold then Some None
       else if cls < 0 then Some None
       else Some (Some (clamped_detection st original_width original_height
                          cls score bx1 by1 bx2 by2))
     }"

definition ppyoloe_decode ::
  "YoloDetector \<Rightarrow> cfloat list \<Rightarrow> int list \<Rightarrow> nat \<Rightarrow> int \<Rightarrow> int \<Rightarrow> int \<Rightarrow> int \<Rightarrow> cfloat
     \<Rightarrow> Detection list option" where
  "ppyoloe_decode st output output_shape output_count dim1 dim2
       original_width original_height conf_threshold =
     (let num_detections = snd (ppyoloe_layout output_shape dim1 dim2 output_count)
      in if num_detections \<le> 0 then Some []
         else for_boxes (ppyoloe_box st output original_width original_height conf_threshold)
                num_detections 0 [])"

subsection \<open>YOLOX\<close>

definition grid_cells :: "int \<Rightarrow> int \<Rightarrow> (cfloat \<times> cfloat \<times> cfloat) list" where
  \<comment> \<open>The rounds of one stride: the entries pushed to \<^verbatim>\<open>grids_x\<close>, \<^verbatim>\<open>grids_y\<close> and
      \<^verbatim>\<open>strides_vec\<close>, which grow together.\<close>
  "grid_cells input_width stride =
     (let grid_size = c_div input_width stride
      in concat (map (\<lambda>gy. map (\<lambda>gx. (int_to_float (int gx), int_to_float (int gy),
                                          int_to_float stride))
                                [0..<nat grid_size])
                     [0..<nat grid_size]))"

definition yolox_grids :: "int \<Rightarrow> (cfloat \<times> cfloat \<times> cfloat) list" where
  "yolox_grids input_width = concat (map (grid_cells input_width) [8, 16, 32])"

definition yolox_best_class ::
  "YoloDetector \<Rightarrow> cfloat list \<Rightarrow> int \<Rightarrow> int \<Rightarrow> (cfloat \<times> int) option" where
  \<comment> \<open>The loop over \<^verbatim>\<open>class_scores[c]\<close> with \<^verbatim>\<open>class_scores = box_data + 5\<close>: it gives
      \<^verbatim>\<open>max_class_score\<close> and \<^verbatim>\<open>max_class\<close>.\<close>
  "yolox_best_class st output features i =
     class_loop (\<lambda>c. rd output (i * features + 5 + c)) (m_num_classes st) 0 (Fin 0, 0)"

text \<open>
  The rest of a round of the loop over the boxes, from the statement that computes
  \<^verbatim>\<open>confidence\<close> on, with the values of \<^verbatim>\<open>objectness\<close>, \<^verbatim>\<open>max_class_score\<close> and
  \<^verbatim>\<open>max_class\<close>.
\<close>

definition yolox_scored_box ::
  "(cfloat \<Rightarrow> cfloat) \<Rightarrow> YoloDetector \<Rightarrow> cfloat list \<Rightarrow> int \<Rightarrow> (cfloat \<times> cfloat \<times> cfloat) list \<Rightarrow> int \<Rightarrow> int
     \<Rightarrow> cfloat \<Rightarrow> int \<Rightarrow> int \<Rightarrow> cfloat \<Rightarrow> int \<Rightarrow> cfloat \<Rightarrow> cfloat \<times> int
     \<Rightarrow> Detection option option" where
  "yolox_scored_box std_exp st output features grids original_width original_height
       scale pad_x pad_y conf_threshold i objectness best =
     (let confidence = fmul objectness (fst best)
      in if flt confidence conf_threshold then Some None
         else do {
           cell \<leftarrow> vec_at grids i;
           b0 \<leftarrow> rd output (i * features + 0);
           b1 \<leftarrow> rd output (i * features + 1);
           b2 \<leftarrow> rd output (i * features + 2);
           b3 \<leftarrow> rd output (i * features + 3);
           (case cell of (grid_x, grid_y, stride) \<Rightarrow>
              (let cx = fmul (fadd b0 grid_x) stride;
                   cy = fmul (fadd b1 grid_y) stride;
                   w = fmul (std_exp b2) stride;
                   h = fmul (std_exp b3) stride
               in Some (Some (clamped_detection st original_width original_height
                    (snd best) confidence
                    (fdiv (fsub (fsub cx (fdiv w (Fin 2))) (int_to_float pad_x)) scale)
                    (fdiv (fsub (fsub cy (fdiv h (Fin 2))) (int_to_float pad_y)) scale)
                    (fdiv (fsub (fadd cx (fdiv w (Fin 2))) (int_to_float pad_x)) scale)
                    (fdiv (fsub (fadd cy (fdiv h (Fin 2))) (int_to_float pad_y)) scale)))))
         })"

definition yolox_box ::
  "(cfloat \<Rightarrow> cfloat) \<Rightarrow> YoloDetector \<Rightarrow> cfloat list \<Rightarrow> int \<Rightarrow> (cfloat \<times> cfloat \<times> cfloat) list \<Rightarrow> int \<Rightarrow> int
     \<Rightarrow> cfloat \<Rightarrow> int \<Rightarrow> int \<Rightarrow> cfloat \<Rightarrow> int \<Rightarrow> Detection option option" where
  "yolox_box std_exp st output features grids original_width original_height
       scale pad_x pad_y conf_threshold i =
     do {
       objectness \<leftarrow> rd output (i * features + 4);
       if flt objectness conf_threshold then Some None
       else do {
         best \<leftarrow> yolox_best_class st output features i;
         yolox_scored_box std_exp st output features grids original_width original_height
           scale pad_x pad_y conf_threshold i objectness best
       }
     }"

definition yolox_decode ::
  "(cfloat \<Rightarrow> cfloat) \<Rightarrow> YoloDetector \<Rightarrow> cfloat list \<Rightarrow> int \<Rightarrow> int \<Rightarrow> int \<Rightarrow> int \<Rightarrow> cfloat \<Rightarrow> int \<Rightarrow> int \<Rightarrow> cfloat
     \<Rightarrow> Detection list option" where
  "yolox_decode std_exp st output dim1 dim2 original_width original_height scale pad_x pad_y
       conf_threshold =
     (let num_boxes = static_cast_int dim1;
          features = static_cast_int dim2;
          grids = yolox_grids (m_input_width st)
      in for_boxes (yolox_box std_exp st output features grids original_width original_height
                      scale pad_x pad_y conf_threshold)
           num_boxes 0 [])"

subsection \<open>YOLOv8\<close>

definition yolov8_box ::
  "YoloDetector \<Rightarrow> cfloat list \<Rightarrow> bool \<Rightarrow> int \<Rightarrow> int \<Rightarrow> int \<Rightarrow> int
     \<Rightarrow> cfloat \<Rightarrow> int \<Rightarrow> int \<Rightarrow> cfloat \<Rightarrow> int \<Rightarrow> Detection option option" where
  "yolov8_box st output transposed num_boxes features original_width original_height
       scale pad_x pad_y conf_threshold i =
     do {
       cx \<leftarrow> rd output (if transposed then i * features + 0 else 0 * num_boxes + i);
       cy \<leftarrow> rd output (if transposed then i * features + 1 else 1 * num_boxes + i);
       w \<leftarrow> rd output (if transposed then i * features + 2 else 2 * num_boxes + i);
       h \<leftarrow> rd output (if transposed then i * features + 3 else 3 * num_boxes + i);
       best \<leftarrow> class_loop (\<lambda>c. rd output (if transposed then i * features + 4 + c
                                            else (4 + c) * num_boxes + i))
                 (features - 4) 0 (Fin 0, 0);
       if flt (fst best) conf_threshold then Some None
       else Some (Some (clamped_detection st original_width original_height
              (snd best) (fst best)
              (fdiv (fsub (fsub cx (fdiv w (Fin 2))) (int_to_float pad_x)) scale)
              (fdiv (fsub (fsub cy (fdiv h (Fin 2))) (int_to_float pad_y)) scale)
              (fdiv (fsub (fadd cx (fdiv w (Fin 2))) (int_to_float pad_x)) scale)
              (fdiv (fsub (fadd cy (fdiv h (Fin 2))) (int_to_float pad_y)) scale)))
     }"

definition yolov8_decode ::
  "YoloDetector \<Rightarrow> cfloat list \<Rightarrow> int \<Rightarrow> int \<Rightarrow> int \<Rightarrow> int \<Rightarrow> cfloat \<Rightarrow> int \<Rightarrow> int \<Rightarrow> cfloat
     \<Rightarrow> Detection list option" where
  "yolov8_decode st output dim1 dim2 original_width original_height scale pad_x pad_y
       conf_threshold =
     (let transposed = (dim1 > dim2);
          num_boxes = (if transposed then static_cast_int dim1 else static_cast_int dim2);
          features = (if transposed then static_cast_int dim2 else static_cast_int dim1)
      in for_boxes (yolov8_box st output transposed num_boxes features
                      original_width original_height scale pad_x pad_y conf_threshold)
           num_boxes 0 [])"

subsection \<open>The whole of postprocess\<close>

definition postprocess ::
  "(Detection list \<Rightarrow> Detection list) \<Rightarrow> (cfloat \<Rightarrow> cfloat) \<Rightarrow> YoloDetector \<Rightarrow> cfloat list \<Rightarrow> int list \<Rightarrow> nat
     \<Rightarrow> int \<Rightarrow> int \<Rightarrow> cfloat \<Rightarrow> int \<Rightarrow> int \<Rightarrow> cfloat \<Rightarrow> cfloat \<Rightarrow> Detection list option" where
  "postprocess std_sort std_exp st output output_shape output_count original_width original_height
       scale pad_x pad_y conf_threshold iou_threshold =
     (case output_dims output_shape output_count of
        None \<Rightarrow> Some []
      | Some (dim1, dim2) \<Rightarrow>
          if m_model_type st = PPYOLOE then
            ppyoloe_decode st output output_shape output_count dim1 dim2
              original_width original_height conf_threshold
          else
            (case (if m_model_type st = YOLOX
                   then yolox_decode std_exp st output dim1 dim2 original_width original_height
                          scale pad_x pad_y conf_threshold
                   else yolov8_decode st output dim1 dim2 original_width original_height
                          scale pad_x pad_y conf_threshold) of
               None \<Rightarrow> None
             | Some detections \<Rightarrow> nms std_sort detections iou_threshold))"

section \<open>The detection calls\<close>

text \<open>
  \<^verbatim>\<open>detect\<close> builds the inputs of the model, runs it and decodes its first output. The argument
  \<open>run\<close> is \<^verbatim>\<open>m_session->Run\<close>: from the input tensors it gives the shape and the floats of
  the first output, or \<^term>\<open>None\<close> when the engine throws. The exceptions of the engine and of
  OpenCV are caught in \<^verbatim>\<open>detect\<close>, which then returns no detection.
\<close>

datatype input_tensor = ImageTensor "real list" | ScaleFactorTensor "cfloat list"

definition find_input_indices :: "string list \<Rightarrow> int \<times> int" where
  \<comment> \<open>\<^verbatim>\<open>image_idx\<close> and \<^verbatim>\<open>scale_idx\<close> after the loop over the names and the two defaults.\<close>
  "find_input_indices names =
     (let found = fold (\<lambda>i (image_idx, scale_idx).
                     if sublist ''image'' (names ! i) then (int i, scale_idx)
                     else if sublist ''scale'' (names ! i) then (image_idx, int i)
                     else (image_idx, scale_idx))
                   [0..<length names] (- 1, - 1)
      in (if fst found = - 1 then 1 else fst found,
          if snd found = - 1 then 0 else snd found))"

definition input_values :: "YoloDetector \<Rightarrow> real list \<Rightarrow> int \<Rightarrow> int \<Rightarrow> input_tensor list" where
  "input_values st input_tensor width height =
     (if m_model_type st = PPYOLOE \<and> length (m_input_names_str st) \<ge> 2 then
        (let idx = find_input_indices (m_input_names_str st);
             scale_y = fdiv (int_to_float (m_input_height st)) (int_to_float height);
             scale_x = fdiv (int_to_float (m_input_width st)) (int_to_float width);
             scale_factor_data = [scale_y, scale_x]
         in concat (map (\<lambda>i. if int i = fst idx then [ImageTensor input_tensor]
                              else if int i = snd idx then [ScaleFactorTensor scale_factor_data]
                              else [])
                        [0..<length (m_input_names_str st)]))
      else [ImageTensor input_tensor])"

definition detect ::
  "(Detection list \<Rightarrow> Detection list) \<Rightarrow> (cfloat \<Rightarrow> cfloat) \<Rightarrow> YoloDetector \<Rightarrow> (Mat \<Rightarrow> int \<Rightarrow> int \<Rightarrow> Mat option)
     \<Rightarrow> (input_tensor list \<Rightarrow> (int list \<times> cfloat list) option)
     \<Rightarrow> Mat \<Rightarrow> int \<Rightarrow> int \<Rightarrow> cfloat \<Rightarrow> cfloat \<Rightarrow> Detection list option" where
  "detect std_sort std_exp st cv_resize run bgr width height conf_threshold iou_threshold =
     (case preprocess st cv_resize bgr width height of
        Undefined \<Rightarrow> None
      | Throws \<Rightarrow> Some []
      | Returns (input_tensor, scale, pad_x, pad_y) \<Rightarrow>
          (case run (input_values st input_tensor width height) of
             None \<Rightarrow> Some []
           | Some (output_shape, output) \<Rightarrow>
               postprocess std_sort std_exp st output output_shape (length output) width height
                 scale pad_x pad_y conf_threshold iou_threshold))"

text \<open>
  What a call returns: the error text with its code, or the text that \<^verbatim>\<open>toJson\<close> writes from
  the detections and the two image dimensions (the elapsed time is left out). Two more
  outcomes are not return values: an exception that no handler of the call catches, and
  undefined behaviour.
\<close>

datatype error_code = NOT_INITIALIZED | IMAGE_LOAD_FAILED

datatype call_result =
    ErrorJson error_code
  | ResultJson "Detection list" int int
  | UncaughtException
  | UndefinedBehaviour

definition toJson :: "Detection list option \<Rightarrow> int \<Rightarrow> int \<Rightarrow> call_result" where
  "toJson detections image_width image_height =
     (case detections of
        None \<Rightarrow> UndefinedBehaviour
      | Some ds \<Rightarrow> ResultJson ds image_width image_height)"

text \<open>
  \<^verbatim>\<open>detectFromPath\<close>: \<open>cv_imread\<close> is \<^verbatim>\<open>cv::imread\<close>, with \<^term>\<open>None\<close> for the empty matrix of
  a file that cannot be read.
\<close>

definition detectFromPath ::
  "(Detection list \<Rightarrow> Detection list) \<Rightarrow> (cfloat \<Rightarrow> cfloat) \<Rightarrow> YoloDetector \<Rightarrow> (string \<Rightarrow> Mat option)
     \<Rightarrow> (Mat \<Rightarrow> int \<Rightarrow> int \<Rightarrow> Mat option)
     \<Rightarrow> (input_tensor list \<Rightarrow> (int list \<times> cfloat list) option)
     \<Rightarrow> string \<Rightarrow> cfloat \<Rightarrow> cfloat \<Rightarrow> call_result" where
  "detectFromPath std_sort std_exp st cv_imread cv_resize run image_path conf_threshold iou_threshold =
     (if \<not> m_initialized st then ErrorJson NOT_INITIALIZED
      else case cv_imread image_path of
             None \<Rightarrow> ErrorJson IMAGE_LOAD_FAILED
           | Some img \<Rightarrow>
               toJson (detect std_sort std_exp st cv_resize run img (cols img) (rows img)
                         conf_threshold iou_threshold)
                 (cols img) (rows img))"

text \<open>
  \<^verbatim>\<open>detectFromBuffer\<close>: \<open>bgra_to_bgr data height width stride\<close> stands for the two OpenCV
  statements that wrap the caller's buffer in a four-channel matrix with the given row stride
  and convert it with \<^verbatim>\<open>cv::COLOR_BGRA2BGR\<close>. They are outside every \<^verbatim>\<open>try\<close> block.
\<close>

definition detectFromBuffer ::
  "(Detection list \<Rightarrow> Detection list) \<Rightarrow> (cfloat \<Rightarrow> cfloat) \<Rightarrow> YoloDetector \<Rightarrow> ('buf \<Rightarrow> int \<Rightarrow> int \<Rightarrow> int \<Rightarrow> Mat option)
     \<Rightarrow> (Mat \<Rightarrow> int \<Rightarrow> int \<Rightarrow> Mat option)
     \<Rightarrow> (input_tensor list \<Rightarrow> (int list \<times> cfloat list) option)
     \<Rightarrow> 'buf \<Rightarrow> int \<Rightarrow> int \<Rightarrow> int \<Rightarrow> cfloat \<Rightarrow> cfloat \<Rightarrow> call_result" where
  "detectFromBuffer std_sort std_exp st bgra_to_bgr cv_resize run image_data width height stride
       conf_threshold iou_threshold =
     (if \<not> m_initialized st then ErrorJson NOT_INITIALIZED
      else case bgra_to_bgr image_data height width stride of
             None \<Rightarrow> UncaughtException
           | Some bgr \<Rightarrow>
               toJson (detect std_sort std_exp st cv_resize run bgr (cols bgr) (rows bgr)
                         conf_threshold iou_threshold)
                 width height)"

text \<open>
  \<^verbatim>\<open>cv::rotate\<close> with the three rotation codes.
\<close>

definition ROTATE_90_CLOCKWISE :: "Mat \<Rightarrow> Mat" where
  "ROTATE_90_CLOCKWISE m =
     \<lparr> rows = cols m, cols = rows m,
       pixel_at = (\<lambda>y x. pixel_at m (nat (rows m - 1 - int x)) y) \<rparr>"

definition ROTATE_180 :: "Mat \<Rightarrow> Mat" where
  "ROTATE_180 m =
     \<lparr> rows = rows m, cols = cols m,
       pixel_at = (\<lambda>y x. pixel_at m (nat (rows m - 1 - int y)) (nat (cols m - 1 - int x))) \<rparr>"

definition ROTATE_90_COUNTERCLOCKWISE :: "Mat \<Rightarrow> Mat" where
  "ROTATE_90_COUNTERCLOCKWISE m =
     \<lparr> rows = cols m, cols = rows m,
       pixel_at = (\<lambda>y x. pixel_at m x (nat (cols m - 1 - int y))) \<rparr>"

text \<open>
  \<^verbatim>\<open>detectFromYUV\<close>: \<open>yuv_to_bgr\<close> stands for the statements from the allocation of
  \<^verbatim>\<open>nv21_data\<close> to \<^verbatim>\<open>cv::cvtColor(nv21, bgr, cv::COLOR_YUV2BGR_NV21)\<close>: they copy the three
  planes through raw pointers, compare the addresses of two planes and call OpenCV; none of
  them returns from the function and none is inside a \<^verbatim>\<open>try\<close> block. Its arguments are the
  planes and \<^verbatim>\<open>width\<close>, \<^verbatim>\<open>height\<close>, \<^verbatim>\<open>y_row_stride\<close>, \<^verbatim>\<open>uv_row_stride\<close>,
  \<^verbatim>\<open>uv_pixel_stride\<close>.
\<close>

definition detectFromYUV ::
  "(Detection list \<Rightarrow> Detection list) \<Rightarrow> (cfloat \<Rightarrow> cfloat) \<Rightarrow> YoloDetector
     \<Rightarrow> ('buf \<Rightarrow> 'buf \<Rightarrow> 'buf \<Rightarrow> int \<Rightarrow> int \<Rightarrow> int \<Rightarrow> int \<Rightarrow> int \<Rightarrow> Mat option)
     \<Rightarrow> (Mat \<Rightarrow> int \<Rightarrow> int \<Rightarrow> Mat option)
     \<Rightarrow> (input_tensor list \<Rightarrow> (int list \<times> cfloat list) option)
     \<Rightarrow> 'buf \<Rightarrow> 'buf \<Rightarrow> 'buf \<Rightarrow> int \<Rightarrow> int \<Rightarrow> int \<Rightarrow> int \<Rightarrow> int \<Rightarrow> int \<Rightarrow> cfloat \<Rightarrow> cfloat
     \<Rightarrow> call_result" where
  "detectFromYUV std_sort std_exp st yuv_to_bgr cv_resize run y_data u_data v_data width height
       y_row_stride uv_row_stride uv_pixel_stride rotation conf_threshold iou_threshold =
     (if \<not> m_initialized st then ErrorJson NOT_INITIALIZED
      else case yuv_to_bgr y_data u_data v_data width height
                  y_row_stride uv_row_stride uv_pixel_stride of
             None \<Rightarrow> UncaughtException
           | Some converted \<Rightarrow>
               (let bgr = (if rotation = 90 then ROTATE_90_CLOCKWISE converted
                           else if rotation = 180 then ROTATE_180 converted
                           else if rotation = 270 then ROTATE_90_COUNTERCLOCKWISE converted
                           else converted);
                    final_width = cols bgr;
                    final_height = rows bgr
                in toJson (detect std_sort std_exp st cv_resize run bgr final_width final_height
                             conf_threshold iou_threshold)
                     final_width final_height))"

section \<open>Statements that the code is compared with\<close>

subsection \<open>The scan of a fixed number of class scores\<close>

text \<open>
  The reading of claim C10 against which the loop of the source is compared: exactly the
  \<open>n\<close> scores \<open>output[base], \<dots>, output[base + n - 1]\<close> are scanned, for the largest
  score above 0 and the first class that has it; the scan is undefined when one of the
  \<open>n\<close> lies outside the tensor.
\<close>

definition scan_exactly :: "cfloat list \<Rightarrow> int \<Rightarrow> nat \<Rightarrow> (cfloat \<times> int) option" where
  "scan_exactly output base n =
     (if \<forall>c \<in> set [0..<n]. 0 \<le> base + int c \<and> base + int c < int (length output)
      then Some (fold (\<lambda>c best. if flt (fst best) (output ! nat (base + int c))
                                 then (output ! nat (base + int c), int c) else best)
                   [0..<n] (Fin 0, 0))
      else None)"

subsection \<open>A detection inside the image\<close>

text \<open>
  What claim C1 is compared with, for one detection and an image of width \<open>w\<close> and height
  \<open>h\<close>: each of the four coordinates is a number between 0 and the size of the image along
  its axis.
\<close>

definition between_0_and :: "int \<Rightarrow> cfloat \<Rightarrow> bool" where
  "between_0_and bound v = (case v of Fin r \<Rightarrow> 0 \<le> r \<and> r \<le> real_of_int bound | _ \<Rightarrow> False)"

definition inside_image :: "int \<Rightarrow> int \<Rightarrow> Detection \<Rightarrow> bool" where
  "inside_image w h d \<longleftrightarrow>
     between_0_and w (x1 d) \<and> between_0_and w (x2 d) \<and> between_0_and h (y1 d) \<and> between_0_and h (y2 d)"

subsection \<open>The element of a field under a layout\<close>

text \<open>
  What claim C3 is compared with: in a tensor of \<open>n\<close> detections, field \<open>k\<close> of detection
  \<open>i\<close> is the element at row \<open>i\<close>, column \<open>k\<close> of the layout \<open>[N, 6]\<close>, and the element at
  row \<open>k\<close>, column \<open>i\<close> of the transposed layout \<open>[6, N]\<close>.
\<close>

definition layout_element :: "bool \<Rightarrow> nat \<Rightarrow> cfloat list \<Rightarrow> nat \<Rightarrow> nat \<Rightarrow> cfloat" where
  "layout_element transposed n output_data i k =
     (if transposed then output_data ! (k * n + i) else output_data ! (i * 6 + k))"

subsection \<open>Boxes and intersection over union\<close>

text \<open>
  A detection none of whose corners is NaN; every detection that a decoder builds is one,
  since the clamping replaces NaN by 0.
\<close>

definition corners_not_NaN :: "Detection \<Rightarrow> bool" where
  "corners_not_NaN d \<longleftrightarrow> x1 d \<noteq> NaN \<and> y1 d \<noteq> NaN \<and> x2 d \<noteq> NaN \<and> y2 d \<noteq> NaN"


text \<open>
  What claim C5 is compared with: for two boxes given by real corners, the area of the
  intersection over the area of the union, and 0 when the union has no area.
\<close>

definition box_area :: "real \<times> real \<times> real \<times> real \<Rightarrow> real" where
  "box_area b = (case b of (bx1, by1, bx2, by2) \<Rightarrow> (bx2 - bx1) * (by2 - by1))"

definition box_intersection :: "real \<times> real \<times> real \<times> real \<Rightarrow> real \<times> real \<times> real \<times> real \<Rightarrow> real" where
  "box_intersection a b =
     (case a of (ax1, ay1, ax2, ay2) \<Rightarrow> case b of (bx1, by1, bx2, by2) \<Rightarrow>
        max 0 (min ax2 bx2 - max ax1 bx1) * max 0 (min ay2 by2 - max ay1 by1))"

definition box_iou :: "real \<times> real \<times> real \<times> real \<Rightarrow> real \<times> real \<times> real \<times> real \<Rightarrow> real" where
  "box_iou a b =
     (let u = box_area a + box_area b - box_intersection a b
      in if 0 < u then box_intersection a b / u else 0)"

section \<open>Properties of the floats\<close>

subsection \<open>Rounding\<close>

lemma round_half_even_int [simp]: "round_half_even (of_int z) = z"
  by (simp add: round_half_even_def)

lemma round_half_even_close: "\<bar>of_int (round_half_even q) - q\<bar> \<le> 1 / 2"
  unfolding round_half_even_def by (auto; linarith)

lemma powi2_less_imp:
  assumes "(2::real) powi a < 2 powi b"
  shows "a < b"
proof (rule ccontr)
  assume "\<not> a < b"
  then have "b \<le> a" by simp
  then have "(2::real) powi b \<le> 2 powi a" by (rule power_int_increasing) simp
  with assms show False by simp
qed

lemma floor_log2_eq:
  assumes "2 powi k \<le> x" "x < 2 powi (k + 1)"
  shows "\<lfloor>log 2 x\<rfloor> = k"
proof -
  have "0 < (2::real) powi k" by simp
  with assms(1) have x: "0 < x" by linarith
  have a: "(2::real) powr real_of_int k = 2 powi k"
    by (rule powr_real_of_int') simp_all
  have b: "(2::real) powr real_of_int (k + 1) = 2 powi (k + 1)"
    by (rule powr_real_of_int') simp_all
  have "2 powr real_of_int k \<le> x \<and> x < 2 powr real_of_int (k + 1)"
    unfolding a b using assms by simp
  then show ?thesis
    using floor_log_eq_powr_iff [of x 2 k] x by simp
qed

lemma floor_log2_bounds:
  assumes "0 < x"
  shows "2 powi \<lfloor>log 2 x\<rfloor> \<le> x \<and> x < 2 powi (\<lfloor>log 2 x\<rfloor> + 1)"
proof -
  have a: "(2::real) powr real_of_int k = 2 powi k" for k
    by (rule powr_real_of_int') simp_all
  from floor_log_eq_powr_iff [of x 2 "\<lfloor>log 2 x\<rfloor>"] assms
  have "2 powr real_of_int \<lfloor>log 2 x\<rfloor> \<le> x \<and> x < 2 powr real_of_int (\<lfloor>log 2 x\<rfloor> + 1)"
    by simp
  then show ?thesis unfolding a .
qed

text \<open>
  A number with binary exponent \<open>k\<close> is rounded at that exponent; this evaluates
  \<^const>\<open>round_to_float\<close> on a given number.
\<close>

lemma round_to_float_normal:
  assumes "2 powi k \<le> \<bar>x\<bar>" "\<bar>x\<bar> < 2 powi (k + 1)" "- 126 \<le> k"
  shows "round_to_float x =
     (if \<bar>round_at k x\<bar> < 2 ^ 128 then Fin (round_at k x)
      else if 0 < x then PosInf else NegInf)"
proof -
  have "0 < (2::real) powi k" by simp
  with assms(1) have "x \<noteq> 0" by linarith
  moreover have "\<lfloor>log 2 \<bar>x\<bar>\<rfloor> = k" using assms(1,2) by (rule floor_log2_eq)
  ultimately show ?thesis
    using assms(3) by (simp add: round_to_float_def Let_def max_def)
qed

lemma round_at_exact: "round_at e (of_int m * 2 powi (e - 23)) = of_int m * 2 powi (e - 23)"
  by (simp add: round_at_def)

lemma round_at_close: "\<bar>round_at e x - x\<bar> \<le> 2 powi (e - 23) / 2"
proof -
  let ?u = "(2::real) powi (e - 23)"
  have u: "0 < ?u" by simp
  have "\<bar>of_int (round_half_even (x / ?u)) - x / ?u\<bar> * ?u \<le> 1 / 2 * ?u"
    using round_half_even_close [of "x / ?u"] u by (intro mult_right_mono) simp_all
  moreover have "\<bar>of_int (round_half_even (x / ?u)) - x / ?u\<bar> * ?u
      = \<bar>of_int (round_half_even (x / ?u)) * ?u - x\<bar>"
  proof -
    have "\<bar>of_int (round_half_even (x / ?u)) - x / ?u\<bar> * ?u
        = \<bar>(of_int (round_half_even (x / ?u)) - x / ?u) * ?u\<bar>"
      using u by (simp add: abs_mult)
    also have "(of_int (round_half_even (x / ?u)) - x / ?u) * ?u
        = of_int (round_half_even (x / ?u)) * ?u - x"
      using u by (simp add: algebra_simps)
    finally show ?thesis .
  qed
  ultimately show ?thesis by (simp add: round_at_def)
qed

text \<open>
  The error of a rounding: a positive number in the range of the normal numbers is rounded
  to a number, not to an infinity, and the result differs from it by at most the
  \<open>2 ^ 24\<close>-th part.
\<close>

lemma round_to_float_error:
  assumes "2 powi (- 126) \<le> x" and "x \<le> 2 ^ 127"
  shows "\<exists>y. round_to_float x = Fin y \<and> \<bar>y - x\<bar> \<le> x / 2 ^ 24"
proof -
  have x: "0 < x" using assms(1) by (smt (verit) zero_less_power_int)
  define k where "k = \<lfloor>log 2 x\<rfloor>"
  have b: "2 powi k \<le> x" "x < 2 powi (k + 1)"
    using floor_log2_bounds [OF x] by (simp_all add: k_def)
  have "(2::real) powi (- 126) < 2 powi (k + 1)" using assms(1) b(2) by linarith
  then have "- 126 < k + 1" by (rule powi2_less_imp)
  then have k: "- 126 \<le> k" by simp
  have c: "\<bar>round_at k x - x\<bar> \<le> 2 powi (k - 23) / 2" by (rule round_at_close)
  have "(2::real) powi (k - 23) / 2 = 2 powi k / 2 ^ 24"
    by (simp add: power_int_diff)
  with c b(1) have d: "\<bar>round_at k x - x\<bar> \<le> x / 2 ^ 24"
    by (smt (verit) divide_right_mono zero_le_power)
  have "\<bar>round_at k x\<bar> \<le> x + x / 2 ^ 24" using d x by linarith
  also have "x + x / 2 ^ 24 \<le> 2 ^ 127 + 2 ^ 127 / 2 ^ 24"
    using assms(2) by (intro add_mono divide_right_mono) simp_all
  also have "\<dots> < (2 ^ 128 :: real)" by simp
  finally have "\<bar>round_at k x\<bar> < 2 ^ 128" .
  moreover have "round_to_float x =
     (if \<bar>round_at k x\<bar> < 2 ^ 128 then Fin (round_at k x)
      else if 0 < x then PosInf else NegInf)"
    using b k x by (intro round_to_float_normal) simp_all
  ultimately show ?thesis using d by simp
qed

text \<open>Every integer of magnitude up to \<open>2 ^ 24\<close> is a binary32 number.\<close>

lemma round_to_float_of_int:
  assumes "\<bar>i\<bar> \<le> 16777216"
  shows "round_to_float (of_int i) = Fin (of_int i)"
proof (cases "i = 0")
  case True
  then show ?thesis by (simp add: round_to_float_def)
next
  case False
  define k where "k = \<lfloor>log 2 \<bar>real_of_int i\<bar>\<rfloor>"
  have x: "0 < \<bar>real_of_int i\<bar>" using False by simp
  have b: "2 powi k \<le> \<bar>real_of_int i\<bar>" "\<bar>real_of_int i\<bar> < 2 powi (k + 1)"
    using floor_log2_bounds [OF x] by (simp_all add: k_def)
  have one: "1 \<le> \<bar>real_of_int i\<bar>" using False by (simp flip: of_int_abs)
  have "(2::real) powi 0 < 2 powi (k + 1)" using one b(2) by simp
  then have "0 < k + 1" by (rule powi2_less_imp)
  then have k0: "0 \<le> k" by simp
  have le: "\<bar>real_of_int i\<bar> \<le> 16777216" using assms by (simp flip: of_int_abs)
  then have "(2::real) powi k < 2 powi 25" using b(1) by simp
  then have "k < 25" by (rule powi2_less_imp)
  then have k24: "k \<le> 24" by simp
  have ex: "\<exists>m. real_of_int i = of_int m * 2 powi (k - 23)"
  proof (cases "k = 24")
    case True
    with b(1) have "16777216 \<le> \<bar>real_of_int i\<bar>" by simp
    then have "16777216 \<le> \<bar>i\<bar>" by (simp flip: of_int_abs)
    with assms have "\<bar>i\<bar> = 16777216" by simp
    then have "i = 16777216 \<or> i = - 16777216" by auto
    then show ?thesis
    proof
      assume "i = 16777216"
      then show ?thesis using True by (intro exI [of _ 8388608]) simp
    next
      assume "i = - 16777216"
      then show ?thesis using True by (intro exI [of _ "- 8388608"]) simp
    qed
  next
    case False
    with k24 have le: "k \<le> 23" by simp
    have "(2::real) powi (k - 23) = 1 / 2 ^ nat (23 - k)"
      using le by (simp add: power_int_def field_simps)
    then show ?thesis by (intro exI [of _ "i * 2 ^ nat (23 - k)"]) simp
  qed
  then obtain m where m: "real_of_int i = of_int m * 2 powi (k - 23)" by blast
  have r: "round_at k (of_int i) = of_int i" unfolding m by (rule round_at_exact)
  have "\<bar>real_of_int i\<bar> < 2 ^ 128" using le by simp
  moreover have "round_to_float (of_int i) =
     (if \<bar>round_at k (of_int i)\<bar> < 2 ^ 128 then Fin (round_at k (of_int i))
      else if 0 < real_of_int i then PosInf else NegInf)"
    using b k0 by (intro round_to_float_normal) simp_all
  ultimately show ?thesis by (simp add: r)
qed

lemma int_to_float_exact: "\<bar>i\<bar> \<le> 16777216 \<Longrightarrow> int_to_float i = Fin (of_int i)"
  by (simp add: int_to_float_def round_to_float_of_int)

lemma round_to_float_0 [simp]: "round_to_float 0 = Fin 0"
  by (simp add: round_to_float_def)

lemma round_to_float_1 [simp]: "round_to_float 1 = Fin 1"
  using round_to_float_of_int [of 1] by simp

lemma round_to_float_numeral:
  "(numeral n :: int) \<le> 16777216 \<Longrightarrow> round_to_float (numeral n) = Fin (numeral n)"
  using round_to_float_of_int [of "numeral n"] by simp

lemma round_to_float_neg_numeral:
  "(numeral n :: int) \<le> 16777216 \<Longrightarrow> round_to_float (- numeral n) = Fin (- numeral n)"
  using round_to_float_of_int [of "- numeral n"] by simp

lemma round_to_float_minus_1 [simp]: "round_to_float (- 1) = Fin (- 1)"
  using round_to_float_of_int [of "- 1"] by simp

lemmas round_small_int = round_to_float_numeral round_to_float_neg_numeral

subsection \<open>Comparisons\<close>

lemma flt_irrefl [simp]: "\<not> flt a a"
  by (cases a) simp_all

lemma flt_trans: "flt a b \<Longrightarrow> flt b c \<Longrightarrow> flt a c"
  by (cases a; cases b; cases c) simp_all

lemma flt_asym: "flt a b \<Longrightarrow> \<not> flt b a"
  by (cases a; cases b) simp_all

lemma flt_NaN [simp]: "\<not> flt NaN a" "\<not> flt a NaN"
  by (cases a; simp)+

lemma flt_total: "a \<noteq> NaN \<Longrightarrow> b \<noteq> NaN \<Longrightarrow> a \<noteq> b \<Longrightarrow> flt a b \<or> flt b a"
  by (cases a; cases b) auto

lemma std_max_commute: "a \<noteq> NaN \<Longrightarrow> b \<noteq> NaN \<Longrightarrow> std_max a b = std_max b a"
  by (cases a; cases b) (auto simp: std_max_def)

lemma std_min_commute: "a \<noteq> NaN \<Longrightarrow> b \<noteq> NaN \<Longrightarrow> std_min a b = std_min b a"
  by (cases a; cases b) (auto simp: std_min_def)

lemma fadd_commute: "fadd a b = fadd b a"
  by (cases a; cases b) (simp_all add: add.commute)


section \<open>Properties of the suppressor\<close>

subsection \<open>The greedy pass\<close>

lemma suppress_later_append:
  "suppress_later t d (ps @ qs) = suppress_later t d ps @ suppress_later t d qs"
  by (simp add: suppress_later_def)

lemma suppress_later_Nil [simp]: "suppress_later t d [] = []"
  by (simp add: suppress_later_def)

lemma suppress_later_Cons:
  "suppress_later t d ((s, e) # ps) =
     (if s then (s, e)
      else if class_id d = class_id e \<and> flt t (iou d e) then (True, e) else (s, e))
     # suppress_later t d ps"
  by (simp add: suppress_later_def)

lemma nms_loop_snoc_suppressed:
  "nms_loop t (ps @ [(True, d)]) = nms_loop t ps"
  by (induction t ps rule: nms_loop.induct)
     (auto simp: suppress_later_append suppress_later_Cons)

lemma nms_loop_snoc:
  "nms_loop t (ps @ [(False, d)]) =
     (if \<exists>k \<in> set (nms_loop t ps). class_id k = class_id d \<and> flt t (iou k d)
      then nms_loop t ps else nms_loop t ps @ [d])"
proof (induction t ps rule: nms_loop.induct)
  case (1 t)
  then show ?case by (simp add: suppress_later_def)
next
  case (2 t s e rest)
  show ?case
  proof (cases s)
    case True
    with 2 show ?thesis by simp
  next
    case False
    show ?thesis
    proof (cases "class_id e = class_id d \<and> flt t (iou e d)")
      case True
      with False show ?thesis
        by (simp add: suppress_later_append suppress_later_Cons nms_loop_snoc_suppressed)
    next
      case no: False
      with False 2(2) show ?thesis
        by (auto simp: suppress_later_append suppress_later_Cons)
    qed
  qed
qed

lemma set_nms_loop_subset: "set (nms_loop t ps) \<subseteq> snd ` set ps"
proof (induction ps rule: rev_induct)
  case Nil
  then show ?case by simp
next
  case (snoc p ps)
  obtain s d where p: "p = (s, d)" by (cases p)
  show ?case
    using snoc by (cases s) (auto simp: p nms_loop_snoc nms_loop_snoc_suppressed)
qed

lemma greedy_snoc:
  "nms_loop t (map (Pair False) (ds @ [d])) =
     (if \<exists>k \<in> set (nms_loop t (map (Pair False) ds)). class_id k = class_id d \<and> flt t (iou k d)
      then nms_loop t (map (Pair False) ds) else nms_loop t (map (Pair False) ds) @ [d])"
  by (simp add: nms_loop_snoc)

lemma set_greedy: "set (nms_loop t (map (Pair False) ds)) \<subseteq> set ds"
  using set_nms_loop_subset [of t "map (Pair False) ds"] by auto

lemma sorted_greedy:
  "sorted_wrt (\<lambda>a b. \<not> flt (confidence a) (confidence b)) ds \<Longrightarrow>
   sorted_wrt (\<lambda>a b. \<not> flt (confidence a) (confidence b)) (nms_loop t (map (Pair False) ds))"
proof (induction ds rule: rev_induct)
  case Nil
  then show ?case by simp
next
  case (snoc d ds)
  from snoc.prems have s: "sorted_wrt (\<lambda>a b. \<not> flt (confidence a) (confidence b)) ds"
    and le: "\<forall>k \<in> set ds. \<not> flt (confidence k) (confidence d)"
    by (auto simp: sorted_wrt_append)
  from le set_greedy [of t ds]
  have "\<forall>k \<in> set (nms_loop t (map (Pair False) ds)). \<not> flt (confidence k) (confidence d)"
    by blast
  with snoc.IH [OF s] show ?case
    unfolding greedy_snoc by (simp add: sorted_wrt_append)
qed

lemma greedy_separated:
  "\<forall>j < length (nms_loop t (map (Pair False) ds)). \<forall>i < j.
     class_id (nms_loop t (map (Pair False) ds) ! i) = class_id (nms_loop t (map (Pair False) ds) ! j)
     \<longrightarrow> \<not> flt t (iou (nms_loop t (map (Pair False) ds) ! i) (nms_loop t (map (Pair False) ds) ! j))"
proof (induction ds rule: rev_induct)
  case Nil
  then show ?case by simp
next
  case (snoc d ds)
  let ?r = "nms_loop t (map (Pair False) ds)"
  show ?case
  proof (cases "\<exists>k \<in> set ?r. class_id k = class_id d \<and> flt t (iou k d)")
    case True
    with snoc show ?thesis unfolding greedy_snoc by simp
  next
    case False
    then have eq: "nms_loop t (map (Pair False) (ds @ [d])) = ?r @ [d]"
      unfolding greedy_snoc by simp
    show ?thesis
      unfolding eq
    proof (intro allI impI)
      fix j i
      assume j: "j < length (?r @ [d])" and i: "i < j"
        and c: "class_id ((?r @ [d]) ! i) = class_id ((?r @ [d]) ! j)"
      show "\<not> flt t (iou ((?r @ [d]) ! i) ((?r @ [d]) ! j))"
      proof (cases "j < length ?r")
        case True
        with i have "i < length ?r" by simp
        with True snoc i c show ?thesis by (simp add: nth_append)
      next
        case jn: False
        with j have jl: "j = length ?r" by simp
        with i have m: "?r ! i \<in> set ?r" by simp
        from jl i c have "class_id (?r ! i) = class_id d" by (simp add: nth_append)
        with False m have "\<not> flt t (iou (?r ! i) d)" by blast
        with jl i show ?thesis by (simp add: nth_append)
      qed
    qed
  qed
qed

lemma greedy_fixpoint:
  "\<forall>j < length r. \<forall>i < j. class_id (r ! i) = class_id (r ! j) \<longrightarrow> \<not> flt t (iou (r ! i) (r ! j))
   \<Longrightarrow> nms_loop t (map (Pair False) r) = r"
proof (induction r rule: rev_induct)
  case Nil
  then show ?case by simp
next
  case (snoc d r)
  have all: "\<not> flt t (iou ((r @ [d]) ! i) ((r @ [d]) ! j))"
    if "j < Suc (length r)" "i < j" "class_id ((r @ [d]) ! i) = class_id ((r @ [d]) ! j)" for i j
    using snoc.prems that by simp
  have "\<forall>j < length r. \<forall>i < j. class_id (r ! i) = class_id (r ! j)
          \<longrightarrow> \<not> flt t (iou (r ! i) (r ! j))"
  proof (intro allI impI)
    fix j i assume j: "j < length r" and i: "i < j" and c: "class_id (r ! i) = class_id (r ! j)"
    from j i have "i < length r" by simp
    with all [of j i] j i c show "\<not> flt t (iou (r ! i) (r ! j))" by (simp add: nth_append)
  qed
  then have ih: "nms_loop t (map (Pair False) r) = r" by (rule snoc.IH)
  have "\<not> (\<exists>k \<in> set r. class_id k = class_id d \<and> flt t (iou k d))"
  proof
    assume "\<exists>k \<in> set r. class_id k = class_id d \<and> flt t (iou k d)"
    then obtain i where i: "i < length r" and c: "class_id (r ! i) = class_id d"
      and g: "flt t (iou (r ! i) d)"
      by (auto simp: in_set_conv_nth)
    with all [of "length r" i] show False by (simp add: nth_append)
  qed
  then show ?case unfolding greedy_snoc ih by simp
qed

lemma nms_eq_greedy:
  assumes "comparator_strict_weak ds"
  shows "nms std_sort ds t = Some (nms_loop t (map (Pair False) (std_sort ds)))"
proof -
  have "(\<lambda>d. (False, d)) = Pair False" by (rule ext) simp
  then show ?thesis using assms by (simp add: nms_def)
qed

lemma nms_undefined: "\<not> comparator_strict_weak ds \<Longrightarrow> nms std_sort ds t = None"
  by (simp add: nms_def)

lemma comparator_strict_weak_subset:
  "comparator_strict_weak ds \<Longrightarrow> set es \<subseteq> set ds \<Longrightarrow> comparator_strict_weak es"
  unfolding comparator_strict_weak_def by blast

lemma sorts_descendingD:
  assumes "sorts_descending std_sort" "comparator_strict_weak ds"
  shows "mset (std_sort ds) = mset ds"
    and "sorted_wrt (\<lambda>a b. \<not> flt (confidence a) (confidence b)) (std_sort ds)"
    and "set (std_sort ds) = set ds"
proof -
  from assms show m: "mset (std_sort ds) = mset ds"
    and "sorted_wrt (\<lambda>a b. \<not> flt (confidence a) (confidence b)) (std_sort ds)"
    by (simp_all add: sorts_descending_def)
  from m show "set (std_sort ds) = set ds" by (rule mset_eq_setD)
qed

lemma set_nms_subset:
  assumes "sorts_descending std_sort" "nms std_sort ds t = Some kept"
  shows "set kept \<subseteq> set ds"
proof -
  from assms(2) have c: "comparator_strict_weak ds"
    by (cases "comparator_strict_weak ds") (simp_all add: nms_def)
  from assms(2) have "kept = nms_loop t (map (Pair False) (std_sort ds))"
    by (simp add: nms_eq_greedy [OF c])
  with set_greedy [of t "std_sort ds"] sorts_descendingD(3) [OF assms(1) c]
  show ?thesis by simp
qed

subsection \<open>The two sorting functions\<close>

lemma mset_insert_desc [simp]: "mset (insert_desc d es) = add_mset d (mset es)"
  by (induction es) simp_all

lemma set_insert_desc [simp]: "set (insert_desc d es) = insert d (set es)"
  by (induction es) auto

lemma sorted_insert_desc:
  "sorted_wrt (\<lambda>a b. \<not> flt (confidence a) (confidence b)) es \<Longrightarrow>
   sorted_wrt (\<lambda>a b. \<not> flt (confidence a) (confidence b)) (insert_desc d es)"
proof (induction es)
  case Nil
  then show ?case by simp
next
  case (Cons e es)
  show ?case
  proof (cases "flt (confidence e) (confidence d)")
    case True
    then have "\<not> flt (confidence d) (confidence e)" by (rule flt_asym)
    moreover have "\<not> flt (confidence d) (confidence k)" if "k \<in> set es" for k
    proof
      assume "flt (confidence d) (confidence k)"
      with True have "flt (confidence e) (confidence k)" by (rule flt_trans)
      with Cons.prems that show False by simp
    qed
    ultimately show ?thesis using True Cons.prems by simp
  next
    case False
    with Cons show ?thesis by auto
  qed
qed

lemma mset_fold_insert_desc: "mset (fold insert_desc ds acc) = mset ds + mset acc"
  by (induction ds arbitrary: acc) simp_all

lemma sorted_fold_insert_desc:
  "sorted_wrt (\<lambda>a b. \<not> flt (confidence a) (confidence b)) acc \<Longrightarrow>
   sorted_wrt (\<lambda>a b. \<not> flt (confidence a) (confidence b)) (fold insert_desc ds acc)"
  by (induction ds arbitrary: acc) (simp_all add: sorted_insert_desc)

lemma mset_insertion_sort [simp]: "mset (insertion_sort ds) = mset ds"
  by (simp add: insertion_sort_def mset_fold_insert_desc)

lemma sorted_insertion_sort:
  "sorted_wrt (\<lambda>a b. \<not> flt (confidence a) (confidence b)) (insertion_sort ds)"
  by (simp add: insertion_sort_def sorted_fold_insert_desc)

lemma sorts_descending_insertion_sort: "sorts_descending insertion_sort"
  by (simp add: sorts_descending_def sorted_insertion_sort)

lemma sorts_descending_reversing_sort: "sorts_descending reversing_sort"
  by (simp add: sorts_descending_def reversing_sort_def sorted_insertion_sort)

text \<open>
  Where any two different detections have different confidences, none of them NaN, the
  descending order is unique.
\<close>

lemma sorted_wrt_unique:
  assumes "mset xs = mset ys" "sorted_wrt R xs" "sorted_wrt R ys"
    and "\<And>a b. a \<in> set xs \<Longrightarrow> b \<in> set xs \<Longrightarrow> a \<noteq> b \<Longrightarrow> \<not> (R a b \<and> R b a)"
  shows "xs = ys"
  using assms
proof (induction xs arbitrary: ys)
  case Nil
  then show ?case by simp
next
  case (Cons x xs)
  from Cons.prems(1) obtain y ys' where ys: "ys = y # ys'"
    by (cases ys) auto
  have xy: "x = y"
  proof (rule ccontr)
    assume ne: "x \<noteq> y"
    have "x \<in># mset ys" using Cons.prems(1) by (metis mset.simps(2) union_single_eq_member)
    then have "x \<in> set ys'" using ne ys by simp
    then have 1: "R y x" using Cons.prems(3) ys by simp
    have "y \<in># mset (x # xs)" using Cons.prems(1) ys by (metis mset.simps(2) union_single_eq_member)
    then have yin: "y \<in> set xs" using ne by auto
    then have 2: "R x y" using Cons.prems(2) by simp
    from Cons.prems(4) [of x y] yin ne 1 2 show False by simp
  qed
  from Cons.prems(1) have m: "mset xs = mset ys'" by (simp add: ys xy)
  have "xs = ys'"
  proof (rule Cons.IH [OF m])
    show "sorted_wrt R xs" using Cons.prems(2) by simp
    show "sorted_wrt R ys'" using Cons.prems(3) ys by simp
    show "\<And>a b. a \<in> set xs \<Longrightarrow> b \<in> set xs \<Longrightarrow> a \<noteq> b \<Longrightarrow> \<not> (R a b \<and> R b a)"
      using Cons.prems(4) by simp
  qed
  with xy ys show ?case by simp
qed

subsection \<open>The intersection over union\<close>

lemma inter_area_commute:
  "corners_not_NaN a \<Longrightarrow> corners_not_NaN b \<Longrightarrow> inter_area a b = inter_area b a"
  by (simp add: inter_area_def corners_not_NaN_def std_max_commute [of "x1 a"]
        std_max_commute [of "y1 a"] std_min_commute [of "x2 a"] std_min_commute [of "y2 a"])

lemma iou_commute:
  "corners_not_NaN a \<Longrightarrow> corners_not_NaN b \<Longrightarrow> iou a b = iou b a"
  by (simp add: iou_def union_area_def inter_area_commute [of a b] fadd_commute)

lemma sym_sorted_wrt_mset:
  assumes sym: "\<And>a b. R a b \<Longrightarrow> R b a"
  shows "sorted_wrt R xs \<longleftrightarrow> (\<forall>a b. a \<in># mset xs \<longrightarrow> b \<in># mset xs - {#a#} \<longrightarrow> R a b)"
proof (induction xs)
  case Nil
  then show ?case by simp
next
  case (Cons x xs)
  show ?case
  proof
    assume L: "sorted_wrt R (x # xs)"
    then have hd: "\<forall>y \<in> set xs. R x y" and tl: "sorted_wrt R xs" by simp_all
    show "\<forall>a b. a \<in># mset (x # xs) \<longrightarrow> b \<in># mset (x # xs) - {#a#} \<longrightarrow> R a b"
    proof (intro allI impI)
      fix a b assume a: "a \<in># mset (x # xs)" and b: "b \<in># mset (x # xs) - {#a#}"
      show "R a b"
      proof (cases "a = x")
        case True
        with b have "b \<in> set xs" by simp
        with hd True show ?thesis by simp
      next
        case False
        with a have ain: "a \<in># mset xs" by simp
        from False have "mset (x # xs) - {#a#} = add_mset x (mset xs - {#a#})" by simp
        with b have "b = x \<or> b \<in># mset xs - {#a#}" by auto
        then show ?thesis
        proof
          assume "b = x"
          with hd ain sym show ?thesis by auto
        next
          assume "b \<in># mset xs - {#a#}"
          with Cons.IH tl ain show ?thesis by blast
        qed
      qed
    qed
  next
    assume Rr: "\<forall>a b. a \<in># mset (x # xs) \<longrightarrow> b \<in># mset (x # xs) - {#a#} \<longrightarrow> R a b"
    have hd: "\<forall>y \<in> set xs. R x y"
    proof
      fix y assume "y \<in> set xs"
      then have "y \<in># mset (x # xs) - {#x#}" by simp
      with Rr show "R x y" by simp
    qed
    have "\<forall>a b. a \<in># mset xs \<longrightarrow> b \<in># mset xs - {#a#} \<longrightarrow> R a b"
    proof (intro allI impI)
      fix a b assume a: "a \<in># mset xs" and b: "b \<in># mset xs - {#a#}"
      have "b \<in># mset (x # xs) - {#a#}"
        using a b by simp
      moreover have "a \<in># mset (x # xs)" using a by simp
      ultimately show "R a b" using Rr by blast
    qed
    with Cons.IH hd show "sorted_wrt R (x # xs)" by simp
  qed
qed

text \<open>
  The order that \<^verbatim>\<open>std::sort\<close> gives to detections of equal confidence does not matter
  for what a second pass keeps: the greedy pass returns every arrangement of the detections
  that a first pass has kept as it is.
\<close>

lemma greedy_keeps_any_arrangement:
  assumes "mset ys = mset (nms_loop t (map (Pair False) ds))"
    and "\<forall>d \<in> set ds. corners_not_NaN d"
  shows "nms_loop t (map (Pair False) ys) = ys"
proof -
  let ?r = "nms_loop t (map (Pair False) ds)"
  let ?Q = "\<lambda>a b. class_id a = class_id b \<longrightarrow> \<not> flt t (iou a b)"
  let ?R = "\<lambda>a b. ?Q a b \<and> ?Q b a"
  have ok: "corners_not_NaN (?r ! i)" if "i < length ?r" for i
  proof -
    from that have "?r ! i \<in> set ?r" by simp
    with set_greedy [of t ds] assms(2) show ?thesis by blast
  qed
  have "sorted_wrt ?R ?r"
    unfolding sorted_wrt_iff_nth_less
  proof (intro allI impI)
    fix i j assume i: "i < j" and j: "j < length ?r"
    then have il: "i < length ?r" by simp
    from greedy_separated [of t ds] i j have q: "?Q (?r ! i) (?r ! j)" by simp
    moreover have "iou (?r ! j) (?r ! i) = iou (?r ! i) (?r ! j)"
      by (rule iou_commute) (rule ok [OF j], rule ok [OF il])
    ultimately show "?R (?r ! i) (?r ! j)" by simp
  qed
  moreover have e: "sorted_wrt ?R zs \<longleftrightarrow>
      (\<forall>a b. a \<in># mset zs \<longrightarrow> b \<in># mset zs - {#a#} \<longrightarrow> ?R a b)" for zs
    by (rule sym_sorted_wrt_mset) simp
  ultimately have "sorted_wrt ?R ys"
    unfolding e [of ys] e [of ?r] assms(1) by simp
  then have "sorted_wrt ?Q ys"
    by (rule sorted_wrt_mono_rel [rotated]) simp
  then show ?thesis
    unfolding sorted_wrt_iff_nth_less by (intro greedy_fixpoint) simp
qed


lemma std_max_Fin [simp]: "std_max (Fin a) (Fin b) = Fin (max a b)"
  by (simp add: std_max_def max_def)

lemma std_min_Fin [simp]: "std_min (Fin a) (Fin b) = Fin (min a b)"
  by (simp add: std_min_def min_def)

lemma fsub_int:
  "\<bar>p - q\<bar> \<le> 16777216 \<Longrightarrow> fsub (Fin (of_int p)) (Fin (of_int q)) = Fin (of_int (p - q))"
  using round_to_float_of_int [of "p - q"] by (simp add: fsub_def)

lemma fadd_int:
  "\<bar>p + q\<bar> \<le> 16777216 \<Longrightarrow> fadd (Fin (of_int p)) (Fin (of_int q)) = Fin (of_int (p + q))"
  using round_to_float_of_int [of "p + q"] by simp

lemma fmul_int:
  "\<bar>p * q\<bar> \<le> 16777216 \<Longrightarrow> fmul (Fin (of_int p)) (Fin (of_int q)) = Fin (of_int (p * q))"
  using round_to_float_of_int [of "p * q"] by simp

lemma abs_mult_le_2048:
  fixes p q :: int
  assumes "\<bar>p\<bar> \<le> 2048" "\<bar>q\<bar> \<le> 2048"
  shows "\<bar>p * q\<bar> \<le> 4194304"
proof -
  have "\<bar>p\<bar> * \<bar>q\<bar> \<le> 2048 * 2048"
    using assms by (intro mult_mono) simp_all
  then show ?thesis by (simp add: abs_mult)
qed

text \<open>
  For boxes whose corners are whole pixels of an image up to 2048 pixels wide and high, every
  intermediate result of \<^const>\<open>iou\<close> is exact, and \<^const>\<open>iou\<close> is the intersection over
  union of the boxes, rounded once.
\<close>

lemma iou_of_pixel_boxes:
  fixes ax1 ay1 ax2 ay2 bx1 by1 bx2 by2 :: int
  assumes a: "x1 a = Fin (of_int ax1)" "y1 a = Fin (of_int ay1)"
             "x2 a = Fin (of_int ax2)" "y2 a = Fin (of_int ay2)"
    and b: "x1 b = Fin (of_int bx1)" "y1 b = Fin (of_int by1)"
           "x2 b = Fin (of_int bx2)" "y2 b = Fin (of_int by2)"
    and r: "\<forall>v \<in> {ax1, ay1, ax2, ay2, bx1, by1, bx2, by2}. 0 \<le> v \<and> v \<le> 2048"
  shows "iou a b = round_to_float
           (box_iou (of_int ax1, of_int ay1, of_int ax2, of_int ay2)
                    (of_int bx1, of_int by1, of_int bx2, of_int by2))"
proof -
  define dx where "dx = max 0 (min ax2 bx2 - max ax1 bx1)"
  define dy where "dy = max 0 (min ay2 by2 - max ay1 by1)"
  define aa where "aa = (ax2 - ax1) * (ay2 - ay1)"
  define ba where "ba = (bx2 - bx1) * (by2 - by1)"
  from r have rr: "0 \<le> ax1" "ax1 \<le> 2048" "0 \<le> ay1" "ay1 \<le> 2048" "0 \<le> ax2" "ax2 \<le> 2048"
    "0 \<le> ay2" "ay2 \<le> 2048" "0 \<le> bx1" "bx1 \<le> 2048" "0 \<le> by1" "by1 \<le> 2048"
    "0 \<le> bx2" "bx2 \<le> 2048" "0 \<le> by2" "by2 \<le> 2048"
    by simp_all
  have dxb: "\<bar>dx\<bar> \<le> 2048" and dyb: "\<bar>dy\<bar> \<le> 2048"
    using rr by (simp_all add: dx_def dy_def)
  have ib: "\<bar>dx * dy\<bar> \<le> 4194304" using dxb dyb by (rule abs_mult_le_2048)
  have ab: "\<bar>aa\<bar> \<le> 4194304" unfolding aa_def using rr by (intro abs_mult_le_2048) simp_all
  have bb: "\<bar>ba\<bar> \<le> 4194304" unfolding ba_def using rr by (intro abs_mult_le_2048) simp_all
  have sx: "fsub (Fin (real_of_int (min ax2 bx2))) (Fin (real_of_int (max ax1 bx1)))
              = Fin (of_int (min ax2 bx2 - max ax1 bx1))"
    using rr by (intro fsub_int) simp
  have sy: "fsub (Fin (real_of_int (min ay2 by2))) (Fin (real_of_int (max ay1 by1)))
              = Fin (of_int (min ay2 by2 - max ay1 by1))"
    using rr by (intro fsub_int) simp
  have inter: "inter_area a b = Fin (of_int (dx * dy))"
  proof -
    have "inter_area a b = fmul (Fin (of_int dx)) (Fin (of_int dy))"
      unfolding inter_area_def Let_def a b std_max_Fin std_min_Fin
      unfolding of_int_max [symmetric] of_int_min [symmetric] sx sy
      unfolding of_int_0 [symmetric, where ?'a = real] of_int_max [symmetric] std_max_Fin
      by (simp add: dx_def dy_def)
    also have "\<dots> = Fin (of_int (dx * dy))" using ib by (intro fmul_int) simp
    finally show ?thesis .
  qed
  have aarea: "fmul (fsub (x2 a) (x1 a)) (fsub (y2 a) (y1 a)) = Fin (of_int aa)"
  proof -
    have "fsub (x2 a) (x1 a) = Fin (of_int (ax2 - ax1))"
      unfolding a using rr by (intro fsub_int) simp
    moreover have "fsub (y2 a) (y1 a) = Fin (of_int (ay2 - ay1))"
      unfolding a using rr by (intro fsub_int) simp
    ultimately show ?thesis using ab by (simp only: aa_def fmul_int)
  qed
  have barea: "fmul (fsub (x2 b) (x1 b)) (fsub (y2 b) (y1 b)) = Fin (of_int ba)"
  proof -
    have "fsub (x2 b) (x1 b) = Fin (of_int (bx2 - bx1))"
      unfolding b using rr by (intro fsub_int) simp
    moreover have "fsub (y2 b) (y1 b) = Fin (of_int (by2 - by1))"
      unfolding b using rr by (intro fsub_int) simp
    ultimately show ?thesis using bb by (simp only: ba_def fmul_int)
  qed
  have un: "union_area a b = Fin (of_int (aa + ba - dx * dy))"
  proof -
    have "fadd (Fin (of_int aa)) (Fin (of_int ba)) = Fin (of_int (aa + ba))"
      using ab bb by (intro fadd_int) simp
    moreover have "fsub (Fin (of_int (aa + ba))) (Fin (of_int (dx * dy)))
        = Fin (of_int (aa + ba - dx * dy))"
      using ab bb ib by (intro fsub_int) simp
    ultimately show ?thesis
      by (simp only: union_area_def Let_def aarea barea inter)
  qed
  have bi: "box_intersection (of_int ax1, of_int ay1, of_int ax2, of_int ay2)
                    (of_int bx1, of_int by1, of_int bx2, of_int by2) = real_of_int (dx * dy)"
    by (simp add: box_intersection_def dx_def dy_def of_int_max of_int_min)
  have ba': "box_area (of_int ax1, of_int ay1, of_int ax2, of_int ay2) = real_of_int aa"
    "box_area (of_int bx1, of_int by1, of_int bx2, of_int by2) = real_of_int ba"
    by (simp_all add: box_area_def aa_def ba_def)
  define u where "u = aa + ba - dx * dy"
  have U: "box_area (of_int ax1, of_int ay1, of_int ax2, of_int ay2)
         + box_area (of_int bx1, of_int by1, of_int bx2, of_int by2)
         - box_intersection (of_int ax1, of_int ay1, of_int ax2, of_int ay2)
                    (of_int bx1, of_int by1, of_int bx2, of_int by2) = real_of_int u"
    unfolding bi ba' u_def by simp
  have spec: "box_iou (of_int ax1, of_int ay1, of_int ax2, of_int ay2)
                    (of_int bx1, of_int by1, of_int bx2, of_int by2)
      = (if 0 < u then real_of_int (dx * dy) / real_of_int u else 0)"
    by (simp only: box_iou_def Let_def U) (simp add: bi)
  have code: "iou a b = (if 0 < u then round_to_float (real_of_int (dx * dy) / real_of_int u)
                         else Fin 0)"
    unfolding iou_def un inter u_def [symmetric] by simp
  show ?thesis unfolding spec code by simp
qed

lemma fle_iff_not_flt: "a \<noteq> NaN \<Longrightarrow> b \<noteq> NaN \<Longrightarrow> fle a b \<longleftrightarrow> \<not> flt b a"
  by (cases a; cases b) auto

lemma round_to_float_three_quarters: "round_to_float (3 / 4) = Fin (3 / 4)"
  by (subst round_to_float_normal [of "- 1"])
     (simp_all add: power_int_minus round_half_even_def round_at_def)

subsection \<open>The suppressor\<close>

lemma nms_example:
  "nms insertion_sort
     [\<lparr>class_id = 0, class_name = ''person'', confidence = Fin (1 / 2),
          x1 = Fin 20, y1 = Fin 20, x2 = Fin 30, y2 = Fin 30\<rparr>,
      \<lparr>class_id = 0, class_name = ''person'', confidence = Fin (3 / 4),
          x1 = Fin 0, y1 = Fin 0, x2 = Fin 16, y2 = Fin 12\<rparr>,
      \<lparr>class_id = 0, class_name = ''person'', confidence = Fin (7 / 8),
          x1 = Fin 0, y1 = Fin 0, x2 = Fin 16, y2 = Fin 16\<rparr>] (Fin (1 / 2))
   = Some [\<lparr>class_id = 0, class_name = ''person'', confidence = Fin (7 / 8),
          x1 = Fin 0, y1 = Fin 0, x2 = Fin 16, y2 = Fin 16\<rparr>,
      \<lparr>class_id = 0, class_name = ''person'', confidence = Fin (1 / 2),
          x1 = Fin 20, y1 = Fin 20, x2 = Fin 30, y2 = Fin 30\<rparr>]"
  by (simp add: nms_def comparator_strict_weak_def insertion_sort_def suppress_later_def
        iou_def union_area_def inter_area_def fsub_def
        round_small_int round_to_float_three_quarters)

lemma iou_example:
  "iou \<lparr>class_id = 0, class_name = ''person'', confidence = Fin (7 / 8),
          x1 = Fin 0, y1 = Fin 0, x2 = Fin 16, y2 = Fin 16\<rparr>
       \<lparr>class_id = 0, class_name = ''person'', confidence = Fin (3 / 4),
          x1 = Fin 0, y1 = Fin 0, x2 = Fin 16, y2 = Fin 12\<rparr> = Fin (3 / 4)"
  by (simp add: iou_def union_area_def inter_area_def fsub_def
        round_small_int round_to_float_three_quarters)







section \<open>Properties of the initialisation\<close>

lemma init_input_flag:
  "fst (init_input inp acc) = (fst acc \<or> sublist ''scale'' (fst inp))"
  by (simp add: init_input_def Let_def)

lemma init_input_type:
  "m_model_type (snd (init_input inp acc)) = m_model_type (snd acc)
   \<and> m_num_classes (snd (init_input inp acc)) = m_num_classes (snd acc)"
  by (simp add: init_input_def Let_def)

lemma fold_init_input:
  "fst (fold init_input inputs acc) = (fst acc \<or> (\<exists>inp \<in> set inputs. sublist ''scale'' (fst inp)))
   \<and> m_model_type (snd (fold init_input inputs acc)) = m_model_type (snd acc)
   \<and> m_num_classes (snd (fold init_input inputs acc)) = m_num_classes (snd acc)"
proof (induction inputs arbitrary: acc)
  case Nil
  then show ?case by simp
next
  case (Cons inp inputs)
  show ?case
    using Cons [of "init_input inp acc"] init_input_flag [of inp acc] init_input_type [of inp acc]
    by auto
qed

lemma static_cast_int_id: "- 2147483648 \<le> v \<Longrightarrow> v < 2147483648 \<Longrightarrow> static_cast_int v = v"
  by (simp add: static_cast_int_def)

lemma init_one_output:
  "snd (init YoloDetector_new (Some (inputs, [(oname, shape)]))) =
     (init_output (oname, shape)
        (if \<exists>inp \<in> set inputs. sublist ''scale'' (fst inp)
         then (snd (fold init_input inputs (False, YoloDetector_new)))
                \<lparr>m_model_type := PPYOLOE, m_num_classes := 80\<rparr>
         else snd (fold init_input inputs (False, YoloDetector_new))))
     \<lparr>m_initialized := True\<rparr>"
  using fold_init_input [of inputs "(False, YoloDetector_new)"]
  by (simp add: init_def Let_def)

lemma init_output_3d:
  "m_model_type st \<noteq> PPYOLOE \<Longrightarrow>
   init_output (oname, [d0, d1, d2]) st =
     (let st' = st\<lparr>m_output_names_str := m_output_names_str st @ [oname]\<rparr>
      in if d1 = 6 \<or> d2 = 6 then st'\<lparr>m_model_type := PPYOLOE, m_num_classes := 80\<rparr>
         else if d2 = 85 \<or> d1 = 85 then st'\<lparr>m_model_type := YOLOX, m_num_classes := 80\<rparr>
         else if d1 = 84 \<or> d2 = 84 then st'\<lparr>m_model_type := YOLOV8, m_num_classes := 80\<rparr>
         else if min d1 d2 > 5
              then st'\<lparr>m_model_type := YOLOX, m_num_classes := static_cast_int (min d1 d2 - 5)\<rparr>
         else if min d1 d2 > 0
              then st'\<lparr>m_model_type := YOLOV8, m_num_classes := static_cast_int (min d1 d2 - 4)\<rparr>
         else st')"
  by (simp add: init_output_def Let_def min_def)

text \<open>
  Claim C4, as amended. The decision table of \<^const>\<open>init\<close> on a new detector whose model
  has one output of shape \<open>(d0, d1, d2)\<close>. If the name of an input contains \<open>scale\<close> the
  model is PP-YOLOE with 80 classes. Otherwise: \<open>d1\<close> or \<open>d2\<close> equal to 6 gives PP-YOLOE;
  else either equal to 85 gives YOLOX with 80 classes; else either equal to 84 gives YOLOv8
  with 80 classes; else with \<open>f\<close> the smaller of the two, \<open>f > 5\<close> gives YOLOX with
  \<open>f - 5\<close> classes (narrowed to a 32-bit \<^verbatim>\<open>int\<close>), \<open>0 < f \<le> 5\<close> gives YOLOv8 with
  \<open>f - 4\<close> classes, and \<open>f \<le> 0\<close> (a dynamic dimension is reported as \<open>-1\<close>) leaves the
  values of the constructor, YOLOX with 80 classes.
\<close>

theorem init_variant_table:
  fixes inputs :: "(string \<times> int list) list" and oname :: string and d0 d1 d2 :: int
  defines "st \<equiv> snd (init YoloDetector_new (Some (inputs, [(oname, [d0, d1, d2])])))"
  defines "f \<equiv> min d1 d2"
  shows
   "((\<exists>inp \<in> set inputs. sublist ''scale'' (fst inp)) \<longrightarrow>
        m_model_type st = PPYOLOE \<and> m_num_classes st = 80)
    \<and> (\<not> (\<exists>inp \<in> set inputs. sublist ''scale'' (fst inp)) \<longrightarrow>
        (d1 = 6 \<or> d2 = 6 \<longrightarrow> m_model_type st = PPYOLOE \<and> m_num_classes st = 80)
      \<and> (d1 \<noteq> 6 \<and> d2 \<noteq> 6 \<and> (d1 = 85 \<or> d2 = 85) \<longrightarrow>
           m_model_type st = YOLOX \<and> m_num_classes st = 80)
      \<and> (d1 \<noteq> 6 \<and> d2 \<noteq> 6 \<and> d1 \<noteq> 85 \<and> d2 \<noteq> 85 \<and> (d1 = 84 \<or> d2 = 84) \<longrightarrow>
           m_model_type st = YOLOV8 \<and> m_num_classes st = 80)
      \<and> (d1 \<notin> {6, 85, 84} \<and> d2 \<notin> {6, 85, 84} \<and> f > 5 \<longrightarrow>
           m_model_type st = YOLOX \<and> m_num_classes st = static_cast_int (f - 5)
           \<and> (f - 5 < 2147483648 \<longrightarrow> m_num_classes st = f - 5))
      \<and> (d1 \<notin> {6, 85, 84} \<and> d2 \<notin> {6, 85, 84} \<and> 0 < f \<and> f \<le> 5 \<longrightarrow>
           m_model_type st = YOLOV8 \<and> m_num_classes st = f - 4)
      \<and> (d1 \<notin> {6, 85, 84} \<and> d2 \<notin> {6, 85, 84} \<and> f \<le> 0 \<longrightarrow>
           m_model_type st = YOLOX \<and> m_num_classes st = 80))"
proof -
  let ?s1 = "snd (fold init_input inputs (False, YoloDetector_new))"
  have t: "m_model_type ?s1 = YOLOX" and n: "m_num_classes ?s1 = 80"
    using fold_init_input [of inputs "(False, YoloDetector_new)"]
    by (simp_all add: YoloDetector_new_def)
  show ?thesis
  proof (cases "\<exists>inp \<in> set inputs. sublist ''scale'' (fst inp)")
    case True
    then show ?thesis
      unfolding st_def init_one_output
      by (simp add: init_output_def Let_def)
  next
    case False
    have small: "static_cast_int (f - 4) = f - 4" if "0 < f" "f \<le> 5"
      using that by (simp add: static_cast_int_id)
    have big: "static_cast_int (f - 5) = f - 5" if "5 < f" "f - 5 < 2147483648"
      using that by (simp add: static_cast_int_id)
    have st: "st = (init_output (oname, [d0, d1, d2]) ?s1)\<lparr>m_initialized := True\<rparr>"
      using False unfolding st_def init_one_output by simp
    have ne: "m_model_type ?s1 \<noteq> PPYOLOE" using t by simp
    show ?thesis
      using False t n small big
      unfolding st init_output_3d [OF ne] f_def [symmetric]
      by (simp add: Let_def)
  qed
qed


lemma init_example_dynamic:
  "snd (init YoloDetector_new
          (Some ([(''images'', [1, 3, 640, 640])], [(''output'', [1, - 1, 10])])))
   = YoloDetector_new\<lparr>m_initialized := True, m_input_names_str := [''images''],
        m_output_names_str := [''output'']\<rparr>"
  by (simp add: init_def init_input_def init_output_def Let_def YoloDetector_new_def
        static_cast_int_def sublist_code prefix_code)


theorem init_variant_table_witness:
  "m_model_type (snd (init YoloDetector_new
      (Some ([(''images'', [1, 3, 640, 640])], [(''output'', [1, 8400, 85])])))) = YOLOX
   \<and> m_num_classes (snd (init YoloDetector_new
      (Some ([(''images'', [1, 3, 640, 640])], [(''output'', [1, 8400, 85])])))) = 80
   \<and> m_model_type (snd (init YoloDetector_new
      (Some ([(''images'', [1, 3, 640, 640])], [(''output0'', [1, 84, 8400])])))) = YOLOV8
   \<and> m_num_classes (snd (init YoloDetector_new
      (Some ([(''images'', [1, 3, 640, 640])], [(''output0'', [1, 84, 8400])])))) = 80
   \<and> m_model_type (snd (init YoloDetector_new
      (Some ([(''image'', [1, 3, 640, 640])], [(''boxes'', [1, 300, 6])])))) = PPYOLOE
   \<and> m_model_type (snd (init YoloDetector_new
      (Some ([(''image'', [1, 3, 640, 640]), (''scale_factor'', [1, 2])],
             [(''boxes'', [1, 8400, 85])])))) = PPYOLOE
   \<and> m_model_type (snd (init YoloDetector_new
      (Some ([(''images'', [1, 3, 416, 416])], [(''output'', [1, 3549, 7])])))) = YOLOX
   \<and> m_num_classes (snd (init YoloDetector_new
      (Some ([(''images'', [1, 3, 416, 416])], [(''output'', [1, 3549, 7])])))) = 2
   \<and> m_model_type (snd (init YoloDetector_new
      (Some ([(''images'', [1, 3, 640, 640])], [(''output0'', [1, 5, 8400])])))) = YOLOV8
   \<and> m_num_classes (snd (init YoloDetector_new
      (Some ([(''images'', [1, 3, 640, 640])], [(''output0'', [1, 5, 8400])])))) = 1
   \<and> m_model_type (snd (init YoloDetector_new
      (Some ([(''images'', [1, 3, 640, 640])], [(''output'', [1, - 1, 10])])))) = YOLOX
   \<and> m_num_classes (snd (init YoloDetector_new
      (Some ([(''images'', [1, 3, 640, 640])], [(''output'', [1, - 1, 10])])))) = 80"
  using
    init_variant_table [where inputs = "[(''images'', [1, 3, 640, 640])]"
      and oname = "''output''" and ?d0.0 = 1 and ?d1.0 = 8400 and ?d2.0 = 85]
    init_variant_table [where inputs = "[(''images'', [1, 3, 640, 640])]"
      and oname = "''output0''" and ?d0.0 = 1 and ?d1.0 = 84 and ?d2.0 = 8400]
    init_variant_table [where inputs = "[(''image'', [1, 3, 640, 640])]"
      and oname = "''boxes''" and ?d0.0 = 1 and ?d1.0 = 300 and ?d2.0 = 6]
    init_variant_table [where inputs = "[(''image'', [1, 3, 640, 640]), (''scale_factor'', [1, 2])]"
      and oname = "''boxes''" and ?d0.0 = 1 and ?d1.0 = 8400 and ?d2.0 = 85]
    init_variant_table [where inputs = "[(''images'', [1, 3, 416, 416])]"
      and oname = "''output''" and ?d0.0 = 1 and ?d1.0 = 3549 and ?d2.0 = 7]
    init_variant_table [where inputs = "[(''images'', [1, 3, 640, 640])]"
      and oname = "''output0''" and ?d0.0 = 1 and ?d1.0 = 5 and ?d2.0 = 8400]
    init_variant_table [where inputs = "[(''images'', [1, 3, 640, 640])]"
      and oname = "''output''" and ?d0.0 = 1 and ?d1.0 = "- 1" and ?d2.0 = 10]
  by (simp add: sublist_code prefix_code static_cast_int_def)

text \<open>
  The claim as it was stated fails where the smaller dimension is not positive: for the
  output shape \<open>(1, -1, 10)\<close> no dimension is 6, 85 or 84 and \<open>f = -1\<close> is not above 5, so
  the claim gives YOLOv8 with \<open>f - 4 = -5\<close> classes; \<^const>\<open>init\<close> leaves YOLOX with 80
  classes.
\<close>

theorem init_variant_table_counterexample:
  "\<not> sublist ''scale'' ''images''
   \<and> \<not> 5 < min (- 1) (10 :: int)
   \<and> m_model_type (snd (init YoloDetector_new
        (Some ([(''images'', [1, 3, 640, 640])], [(''output'', [1, - 1, 10])])))) \<noteq> YOLOV8
   \<and> m_num_classes (snd (init YoloDetector_new
        (Some ([(''images'', [1, 3, 640, 640])], [(''output'', [1, - 1, 10])]))))
        \<noteq> min (- 1) 10 - 4
   \<and> m_model_type (snd (init YoloDetector_new
        (Some ([(''images'', [1, 3, 640, 640])], [(''output'', [1, - 1, 10])])))) = YOLOX
   \<and> m_num_classes (snd (init YoloDetector_new
        (Some ([(''images'', [1, 3, 640, 640])], [(''output'', [1, - 1, 10])])))) = 80"
  unfolding init_example_dynamic
  by (simp add: YoloDetector_new_def sublist_code prefix_code)


section \<open>Properties of the preprocessing\<close>

subsection \<open>The tensor\<close>

lemma length_write_pixel [simp]: "length (write_pixel cs k v t) = length t"
  by (cases v) (simp add: write_pixel_def)

lemma length_fold_write_pixel [simp]:
  "length (fold (\<lambda>p. write_pixel cs (idx p) (v p)) ps t) = length t"
  by (induction ps arbitrary: t) simp_all

lemma nth_write_pixel_same:
  assumes "k < cs" "length t = 3 * cs"
  shows "write_pixel cs k v t ! k = fst v"
    and "write_pixel cs k v t ! (cs + k) = fst (snd v)"
    and "write_pixel cs k v t ! (2 * cs + k) = snd (snd v)"
  using assms by (cases v; simp add: write_pixel_def nth_list_update)+

lemma nth_write_pixel_other:
  assumes "k < cs" "j < cs" "j \<noteq> k" "length t = 3 * cs"
  shows "write_pixel cs k v t ! j = t ! j"
    and "write_pixel cs k v t ! (cs + j) = t ! (cs + j)"
    and "write_pixel cs k v t ! (2 * cs + j) = t ! (2 * cs + j)"
  using assms by (cases v; simp add: write_pixel_def nth_list_update)+

lemma fold_write_pixel_nth:
  assumes "distinct (map idx ps)" "\<forall>p \<in> set ps. idx p < cs" "length t = 3 * cs" "p \<in> set ps"
  shows "fold (\<lambda>p. write_pixel cs (idx p) (v p)) ps t ! idx p = fst (v p)
       \<and> fold (\<lambda>p. write_pixel cs (idx p) (v p)) ps t ! (cs + idx p) = fst (snd (v p))
       \<and> fold (\<lambda>p. write_pixel cs (idx p) (v p)) ps t ! (2 * cs + idx p) = snd (snd (v p))"
  using assms
proof (induction ps arbitrary: p rule: rev_induct)
  case Nil
  then show ?case by simp
next
  case (snoc q ps)
  let ?r = "fold (\<lambda>p. write_pixel cs (idx p) (v p)) ps t"
  have len: "length ?r = 3 * cs" using snoc.prems(3) by simp
  have q: "idx q < cs" using snoc.prems(2) by simp
  show ?case
  proof (cases "p = q")
    case True
    then show ?thesis
      using nth_write_pixel_same [OF q len, of "v q"] by simp
  next
    case False
    with snoc.prems have pin: "p \<in> set ps" by simp
    have "idx q \<notin> idx ` set ps" using snoc.prems(1) by simp
    with pin have ne: "idx p \<noteq> idx q" by (metis imageI)
    have pk: "idx p < cs" using snoc.prems(2) pin by simp
    from snoc.prems have "distinct (map idx ps)" "\<forall>p \<in> set ps. idx p < cs" by simp_all
    from snoc.IH [OF this snoc.prems(3) pin]
    show ?thesis
      using nth_write_pixel_other [OF q pk ne len, of "v q"] by simp
  qed
qed

lemma raster_indices:
  "concat (map (\<lambda>y. map (\<lambda>x. y * W + x) [0..<W]) [0..<H]) = [0..<H * W]"
proof (induction H)
  case 0
  then show ?case by simp
next
  case (Suc H)
  have "map (\<lambda>x. H * W + x) [0..<W] = [H * W..<H * W + W]"
    by (simp add: map_add_upt add.commute)
  moreover have "[0..<H * W] @ [H * W..<H * W + W] = [0..<H * W + W]"
    by (metis le_add1 upt_add_eq_append zero_le)
  ultimately show ?case using Suc by (simp add: add.commute)
qed

lemma fold_rows_cols:
  "fold (\<lambda>y. fold (\<lambda>x. g y x) xs) ys t =
   fold (\<lambda>p. g (fst p) (snd p)) (concat (map (\<lambda>y. map (Pair y) xs) ys)) t"
proof (induction ys arbitrary: t)
  case Nil
  then show ?case by simp
next
  case (Cons y ys)
  have "fold (\<lambda>p. g (fst p) (snd p)) (map (Pair y) xs) t = fold (\<lambda>x. g y x) xs t" for t
    by (simp add: fold_map comp_def)
  then show ?case using Cons by simp
qed

lemma chw_loops_nth:
  fixes val :: "nat \<Rightarrow> nat \<Rightarrow> real \<times> real \<times> real"
  assumes "y < H" "x < W" "length t = 3 * (H * W)"
  defines "r \<equiv> fold (\<lambda>y. fold (\<lambda>x. write_pixel (H * W) (y * W + x) (val y x)) [0..<W]) [0..<H] t"
  shows "r ! (y * W + x) = fst (val y x)
       \<and> r ! (H * W + (y * W + x)) = fst (snd (val y x))
       \<and> r ! (2 * (H * W) + (y * W + x)) = snd (snd (val y x))
       \<and> length r = length t"
proof -
  let ?ps = "concat (map (\<lambda>y. map (Pair y) [0..<W]) [0..<H])"
  let ?idx = "\<lambda>p :: nat \<times> nat. fst p * W + snd p"
  let ?v = "\<lambda>p :: nat \<times> nat. val (fst p) (snd p)"
  have r: "r = fold (\<lambda>p. write_pixel (H * W) (?idx p) (?v p)) ?ps t"
    unfolding r_def by (rule fold_rows_cols)
  have m: "map ?idx ?ps = [0..<H * W]"
    using raster_indices [of W H] by (simp add: map_concat comp_def)
  have d: "distinct (map ?idx ?ps)" unfolding m by simp
  have b: "\<forall>p \<in> set ?ps. ?idx p < H * W"
  proof
    fix p assume "p \<in> set ?ps"
    then have "?idx p \<in> ?idx ` set ?ps" by (rule imageI)
    then have "?idx p \<in> set (map ?idx ?ps)" by (simp only: set_map)
    then show "?idx p < H * W" unfolding m by simp
  qed
  have "(y, x) \<in> Pair y ` {0..<W}" using assms(2) by simp
  then have pin: "(y, x) \<in> set ?ps" using assms(1) by fastforce
  from fold_write_pixel_nth [of ?idx ?ps "H * W" t "(y, x)" ?v, OF d b assms(3) pin]
  show ?thesis unfolding r by simp
qed


lemma case_write_pixel:
  "(case p of (p0, p1, p2) \<Rightarrow> write_pixel cs k (h p0 p1 p2)) =
   write_pixel cs k (case p of (p0, p1, p2) \<Rightarrow> h p0 p1 p2)"
  by (simp split: prod.split)

lemma unat_byte_range: "0 \<le> real (unat (p :: 8 word)) \<and> real (unat p) \<le> 255"
proof -
  have "unat p < 2 ^ LENGTH(8)" by (rule unsigned_less)
  then have "unat p \<le> 255" by simp
  then have "real (unat p) \<le> real 255" by (rule of_nat_mono)
  moreover have "0 \<le> real (unat p)" by (rule of_nat_0_le_iff)
  ultimately show ?thesis by simp
qed






subsection \<open>The transform\<close>

lemma c_div_2_floor: "0 \<le> a \<Longrightarrow> c_div a 2 = a div 2"
  by (simp add: c_div_def)

text \<open>
  The quotient of two sizes up to \<open>2 ^ 22\<close> is a number that differs from the exact quotient
  by at most its \<open>2 ^ 24\<close>-th part.
\<close>

lemma size_quotient:
  fixes a b :: int
  assumes "0 < a" "a \<le> 4194304" "0 < b" "b \<le> 4194304"
  shows "\<exists>q. fdiv (int_to_float a) (int_to_float b) = Fin q
           \<and> \<bar>q - real_of_int a / real_of_int b\<bar> \<le> real_of_int a / real_of_int b / 2 ^ 24"
proof -
  let ?x = "real_of_int a / real_of_int b"
  have ia: "int_to_float a = Fin (of_int a)" and ib: "int_to_float b = Fin (of_int b)"
    using assms by (simp_all add: int_to_float_exact)
  have a1: "1 \<le> real_of_int a" and b1: "1 \<le> real_of_int b" using assms by simp_all
  have ab: "real_of_int a \<le> 4194304" and bb: "real_of_int b \<le> 4194304" using assms by simp_all
  have "1 / 4194304 \<le> 1 / real_of_int b" using bb b1 by (simp add: field_simps)
  also have "\<dots> \<le> ?x" using a1 b1 by (simp add: field_simps)
  finally have lo: "1 / 4194304 \<le> ?x" .
  have "?x \<le> real_of_int a" using a1 b1 by (simp add: field_simps)
  with ab have hi: "?x \<le> 4194304" by simp
  have "(2::real) powi (- 126) \<le> 1 / 4194304" by (simp add: power_int_minus)
  from this lo have lo': "2 powi (- 126) \<le> ?x" by (rule order_trans)
  from hi have hi': "?x \<le> 2 ^ 127" by simp
  from round_to_float_error [OF lo' hi']
  obtain q where "round_to_float ?x = Fin q" "\<bar>q - ?x\<bar> \<le> ?x / 2 ^ 24" by blast
  then show ?thesis using assms(3) by (simp add: ia ib)
qed

text \<open>
  A size up to \<open>2 ^ 22\<close>, scaled by a factor that is at most the quotient to an input size up
  to \<open>2 ^ 22\<close> and its \<open>2 ^ 24\<close>-th part, converts to an \<^verbatim>\<open>int\<close> between 0 and that input
  size.
\<close>

lemma scaled_size:
  fixes extent input_size :: int
  assumes "0 < extent" "extent \<le> 4194304" "0 < input_size" "input_size \<le> 4194304"
    and "1 / 2 ^ 23 \<le> s"
    and "s \<le> real_of_int input_size / real_of_int extent
               + real_of_int input_size / real_of_int extent / 2 ^ 24"
  shows "\<exists>n. float_to_int (fmul (int_to_float extent) (Fin s)) = Some n
           \<and> 0 \<le> n \<and> n \<le> input_size"
proof -
  let ?e = "real_of_int extent" and ?i = "real_of_int input_size"
  have ie: "int_to_float extent = Fin ?e" using assms by (simp add: int_to_float_exact)
  have e1: "1 \<le> ?e" and i1: "1 \<le> ?i" using assms by simp_all
  have eb: "?e \<le> 4194304" and ib: "?i \<le> 4194304" using assms by simp_all
  have "(0::real) < 1 / 2 ^ 23" by simp
  with assms(5) have s0: "0 < s" by linarith
  have "?e * s \<le> ?e * (?i / ?e + ?i / ?e / 2 ^ 24)"
    using assms(6) e1 by (intro mult_left_mono) simp_all
  also have "\<dots> = ?i + ?i / 2 ^ 24" using e1 by (simp add: field_simps)
  finally have up: "?e * s \<le> ?i + ?i / 2 ^ 24" .
  have "1 / 2 ^ 23 \<le> 1 * s" using assms(5) by simp
  also have "\<dots> \<le> ?e * s" using e1 s0 by (intro mult_right_mono) simp_all
  finally have low: "1 / 2 ^ 23 \<le> ?e * s" .
  have "(2::real) powi (- 126) \<le> 1 / 2 ^ 23" by (simp add: power_int_minus)
  from this low have lo': "2 powi (- 126) \<le> ?e * s" by (rule order_trans)
  have "?i + ?i / 2 ^ 24 \<le> 4194304 + 4194304 / 2 ^ 24"
    using ib by (intro add_mono divide_right_mono) simp_all
  with up have hi: "?e * s \<le> 4194305" by simp
  then have hi': "?e * s \<le> 2 ^ 127" by simp
  from round_to_float_error [OF lo' hi']
  obtain p where p: "round_to_float (?e * s) = Fin p"
    and close: "\<bar>p - ?e * s\<bar> \<le> ?e * s / 2 ^ 24" by blast
  have e0: "0 \<le> ?e * s" using e1 s0 by simp
  have "?e * s / 2 ^ 24 \<le> ?e * s" using e0 by (simp add: field_simps)
  with close have pos: "0 \<le> p" by linarith
  have "p \<le> ?e * s + ?e * s / 2 ^ 24" using close by linarith
  also have "\<dots> \<le> (?i + ?i / 2 ^ 24) + (?i + ?i / 2 ^ 24) / 2 ^ 24"
    using up by (intro add_mono divide_right_mono) simp_all
  also have "\<dots> = ?i + ?i * (2 / 2 ^ 24 + 1 / 2 ^ 48)" by (simp add: field_simps)
  also have "\<dots> \<le> ?i + 4194304 * (2 / 2 ^ 24 + 1 / 2 ^ 48)"
    using ib by (intro add_mono mult_right_mono) simp_all
  also have "\<dots> < ?i + 1" by simp
  finally have lt: "p < ?i + 1" .
  then have "p < real_of_int (input_size + 1)" by simp
  then have "\<lfloor>p\<rfloor> < input_size + 1" by (simp only: floor_less_iff)
  then have fl: "\<lfloor>p\<rfloor> \<le> input_size" by simp
  have f0: "0 \<le> \<lfloor>p\<rfloor>" using pos by simp
  have "float_to_int (Fin p) = Some \<lfloor>p\<rfloor>"
    using pos lt ib by (simp add: float_to_int_def Let_def)
  with f0 fl show ?thesis by (simp add: ie p)
qed
lemma size_ratio_bounds:
  fixes a b :: int
  assumes "0 < a" "a \<le> 4194304" "0 < b" "b \<le> 4194304"
  shows "1 / 4194304 \<le> real_of_int a / real_of_int b"
proof -
  have a1: "1 \<le> real_of_int a" and b1: "1 \<le> real_of_int b" using assms by simp_all
  have bb: "real_of_int b \<le> 4194304" using assms by simp
  have "1 / 4194304 \<le> 1 / real_of_int b" using bb b1 by (simp add: field_simps)
  also have "\<dots> \<le> real_of_int a / real_of_int b" using a1 b1 by (simp add: field_simps)
  finally show ?thesis .
qed

lemma min_close:
  fixes a b A B :: real
  assumes "\<bar>a - A\<bar> \<le> A / 16777216" "\<bar>b - B\<bar> \<le> B / 16777216"
    and "1 / 4194304 \<le> A" "1 / 4194304 \<le> B"
  shows "\<bar>min a b - min A B\<bar> \<le> min A B / 16777216"
    and "1 / 8388608 \<le> min a b"
    and "min a b \<le> A + A / 16777216"
    and "min a b \<le> B + B / 16777216"
  using assms by linarith+

text \<open>
  Claim C8. For an image and a model input with sides between 1 and \<open>2 ^ 22\<close>,
  \<^const>\<open>letterbox\<close> has no undefined behaviour, and when it returns (the resize does not
  throw): for PP-YOLOE the image is resized directly to the input size, the scale is recorded
  as 1 and both pads as 0; for the other two variants the scale is the smaller of the
  single-precision quotients \<open>input_w / src_w\<close> and \<open>input_h / src_h\<close>, which differs from the
  smaller of the exact quotients by at most its \<open>2 ^ 24\<close>-th part; the image is resized to its
  sides times the scale, rounded to single precision and truncated, a size within the input
  size; each pad is the floor of half the margin that this leaves, so the resized image
  lies inside the canvas with margins that differ by at most one; and the canvas of the input
  size holds the resized image there and 114 in every channel elsewhere.
\<close>

theorem letterbox_transform:
  fixes st :: YoloDetector and width height :: int
  defines "iw \<equiv> m_input_width st"
  defines "ih \<equiv> m_input_height st"
  assumes "0 < width" and "width \<le> 4194304" and "0 < height" and "height \<le> 4194304"
    and "0 < iw" and "iw \<le> 4194304" and "0 < ih" and "ih \<le> 4194304"
  shows
   "letterbox st cv_resize img width height \<noteq> Undefined
  \<and> (\<forall>resized_final scale pad_x pad_y.
       letterbox st cv_resize img width height = Returns (resized_final, scale, pad_x, pad_y)
       \<longrightarrow>
       (m_model_type st = PPYOLOE \<longrightarrow>
          cv_resize img iw ih = Some resized_final \<and> scale = Fin 1 \<and> pad_x = 0 \<and> pad_y = 0)
     \<and> (m_model_type st \<noteq> PPYOLOE \<longrightarrow>
          scale = std_min (fdiv (int_to_float iw) (int_to_float width))
                          (fdiv (int_to_float ih) (int_to_float height))
        \<and> (\<exists>s. scale = Fin s
              \<and> \<bar>s - min (real_of_int iw / real_of_int width)
                          (real_of_int ih / real_of_int height)\<bar>
                  \<le> min (real_of_int iw / real_of_int width)
                         (real_of_int ih / real_of_int height) / 2 ^ 24)
        \<and> (\<exists>new_width new_height.
              float_to_int (fmul (int_to_float width) scale) = Some new_width
            \<and> float_to_int (fmul (int_to_float height) scale) = Some new_height
            \<and> 0 \<le> new_width \<and> new_width \<le> iw \<and> 0 \<le> new_height \<and> new_height \<le> ih
            \<and> pad_x = (iw - new_width) div 2
            \<and> pad_y = (ih - new_height) div 2
            \<and> 0 \<le> pad_x \<and> pad_x \<le> iw - new_width - pad_x
            \<and> iw - new_width - pad_x \<le> pad_x + 1
            \<and> 0 \<le> pad_y \<and> pad_y \<le> ih - new_height - pad_y
            \<and> ih - new_height - pad_y \<le> pad_y + 1
            \<and> (\<exists>resized.
                  cv_resize img new_width new_height = Some resized
                \<and> rows resized_final = ih \<and> cols resized_final = iw
                \<and> (\<forall>y x. pixel_at resized_final y x =
                      (if pad_x \<le> int x \<and> int x < pad_x + new_width
                        \<and> pad_y \<le> int y \<and> int y < pad_y + new_height
                       then pixel_at resized (nat (int y - pad_y)) (nat (int x - pad_x))
                       else (114, 114, 114)))))))"
proof (cases "m_model_type st = PPYOLOE")
  case True
  then show ?thesis
    by (auto simp: letterbox_def iw_def ih_def split: option.splits)
next
  case False
  let ?X = "real_of_int iw / real_of_int width"
  let ?Y = "real_of_int ih / real_of_int height"
  let ?fx = "fdiv (int_to_float iw) (int_to_float width)"
  let ?fy = "fdiv (int_to_float ih) (int_to_float height)"
  from size_quotient [OF assms(7,8,3,4)] obtain sx where
    sx: "?fx = Fin sx" and cx: "\<bar>sx - ?X\<bar> \<le> ?X / 2 ^ 24" by blast
  from size_quotient [OF assms(9,10,5,6)] obtain sy where
    sy: "?fy = Fin sy" and cy: "\<bar>sy - ?Y\<bar> \<le> ?Y / 2 ^ 24" by blast
  have X: "1 / 4194304 \<le> ?X" using assms(7,8,3,4) by (rule size_ratio_bounds)
  have Y: "1 / 4194304 \<le> ?Y" using assms(9,10,5,6) by (rule size_ratio_bounds)
  let ?s = "min sx sy"
  have sc: "std_min ?fx ?fy = Fin ?s" by (simp add: sx sy)
  have p24: "(2::real) ^ 24 = 16777216" and p23: "(2::real) ^ 23 = 8388608" by simp_all
  note mc = min_close [OF cx [unfolded p24] cy [unfolded p24] X Y]
  have close: "\<bar>?s - min ?X ?Y\<bar> \<le> min ?X ?Y / 2 ^ 24" unfolding p24 by (rule mc(1))
  have low: "1 / 2 ^ 23 \<le> ?s" unfolding p23 by (rule mc(2))
  have ux: "?s \<le> ?X + ?X / 2 ^ 24" unfolding p24 by (rule mc(3))
  have uy: "?s \<le> ?Y + ?Y / 2 ^ 24" unfolding p24 by (rule mc(4))
  from scaled_size [OF assms(3,4,7,8) low ux] obtain nw where
    nw: "float_to_int (fmul (int_to_float width) (Fin ?s)) = Some nw"
    and nw0: "0 \<le> nw" and nwi: "nw \<le> iw" by blast
  from scaled_size [OF assms(5,6,9,10) low uy] obtain nh where
    nh: "float_to_int (fmul (int_to_float height) (Fin ?s)) = Some nh"
    and nh0: "0 \<le> nh" and nhi: "nh \<le> ih" by blast
  have px: "c_div (iw - nw) 2 = (iw - nw) div 2" using nwi by (simp add: c_div_2_floor)
  have py: "c_div (ih - nh) 2 = (ih - nh) div 2" using nhi by (simp add: c_div_2_floor)
  have lb: "letterbox st cv_resize img width height =
      (case cv_resize img nw nh of
         None \<Rightarrow> Throws
       | Some resized \<Rightarrow>
           Returns (copyTo_rect resized (gray_canvas ih iw)
                   ((iw - nw) div 2) ((ih - nh) div 2) nw nh,
                 Fin ?s, (iw - nw) div 2, (ih - nh) div 2))"
    using False
    unfolding letterbox_def Let_def iw_def [symmetric] ih_def [symmetric] sc nw nh
    by (simp only: if_False option.case px py)
  have undef: "letterbox st cv_resize img width height \<noteq> Undefined"
    unfolding lb by (simp split: option.splits)
  have ret: "scale = std_min ?fx ?fy
        \<and> (\<exists>s. scale = Fin s \<and> \<bar>s - min ?X ?Y\<bar> \<le> min ?X ?Y / 2 ^ 24)
        \<and> (\<exists>new_width new_height.
              float_to_int (fmul (int_to_float width) scale) = Some new_width
            \<and> float_to_int (fmul (int_to_float height) scale) = Some new_height
            \<and> 0 \<le> new_width \<and> new_width \<le> iw \<and> 0 \<le> new_height \<and> new_height \<le> ih
            \<and> pad_x = (iw - new_width) div 2
            \<and> pad_y = (ih - new_height) div 2
            \<and> 0 \<le> pad_x \<and> pad_x \<le> iw - new_width - pad_x
            \<and> iw - new_width - pad_x \<le> pad_x + 1
            \<and> 0 \<le> pad_y \<and> pad_y \<le> ih - new_height - pad_y
            \<and> ih - new_height - pad_y \<le> pad_y + 1
            \<and> (\<exists>resized.
                  cv_resize img new_width new_height = Some resized
                \<and> rows resized_final = ih \<and> cols resized_final = iw
                \<and> (\<forall>y x. pixel_at resized_final y x =
                      (if pad_x \<le> int x \<and> int x < pad_x + new_width
                        \<and> pad_y \<le> int y \<and> int y < pad_y + new_height
                       then pixel_at resized (nat (int y - pad_y)) (nat (int x - pad_x))
                       else (114, 114, 114)))))"
    if r: "letterbox st cv_resize img width height
             = Returns (resized_final, scale, pad_x, pad_y)"
    for resized_final scale pad_x pad_y
  proof -
    obtain resized where rs: "cv_resize img nw nh = Some resized"
      using r unfolding lb by (cases "cv_resize img nw nh") simp_all
    from r have
      "(copyTo_rect resized (gray_canvas ih iw) ((iw - nw) div 2) ((ih - nh) div 2) nw nh,
        Fin ?s, (iw - nw) div 2, (ih - nh) div 2) = (resized_final, scale, pad_x, pad_y)"
      unfolding lb rs by (simp only: option.case outcome.inject)
    then have
      rf: "resized_final = copyTo_rect resized (gray_canvas ih iw)
                  ((iw - nw) div 2) ((ih - nh) div 2) nw nh"
      and s: "scale = Fin ?s" and x: "pad_x = (iw - nw) div 2" and y: "pad_y = (ih - nh) div 2"
      by auto
    have pix: "pixel_at resized_final y x =
                 (if pad_x \<le> int x \<and> int x < pad_x + nw \<and> pad_y \<le> int y \<and> int y < pad_y + nh
                  then pixel_at resized (nat (int y - pad_y)) (nat (int x - pad_x))
                  else (114, 114, 114))" for y x
      unfolding rf x y by (simp add: copyTo_rect_def gray_canvas_def)
    have dims: "rows resized_final = ih" "cols resized_final = iw"
      unfolding rf by (simp_all add: copyTo_rect_def gray_canvas_def)
    have mx: "0 \<le> pad_x \<and> pad_x \<le> iw - nw - pad_x \<and> iw - nw - pad_x \<le> pad_x + 1"
      unfolding x using nwi by presburger
    have my: "0 \<le> pad_y \<and> pad_y \<le> ih - nh - pad_y \<and> ih - nh - pad_y \<le> pad_y + 1"
      unfolding y using nhi by presburger
    have 1: "scale = std_min ?fx ?fy" using s sc by simp
    have 2: "\<exists>s. scale = Fin s \<and> \<bar>s - min ?X ?Y\<bar> \<le> min ?X ?Y / 2 ^ 24"
      using s close by blast
    have 3: "float_to_int (fmul (int_to_float width) scale) = Some nw"
      "float_to_int (fmul (int_to_float height) scale) = Some nh"
      using nw nh s by simp_all
    show ?thesis
      using 1 2 3 nw0 nwi nh0 nhi x y mx my rs dims pix by blast
  qed
  show ?thesis
    using False undef ret by blast
qed
lemma quotient_640_69: "round_to_float (640 / 69) = Fin (4862961 / 524288)"
  by (subst round_to_float_normal [of 3])
     (simp_all add: power_int_minus round_half_even_def round_at_def)

lemma quotient_640_2944: "round_to_float (5 / 23) = Fin (14588883 / 67108864)"
  by (subst round_to_float_normal [of "- 3"])
     (simp_all add: power_int_minus round_half_even_def round_at_def)

lemma product_69_scale: "round_to_float (1006632927 / 67108864) = Fin (15728639 / 1048576)"
  by (subst round_to_float_normal [of 3])
     (simp_all add: power_int_minus round_half_even_def round_at_def)

lemma product_2944_scale: "round_to_float (335544309 / 524288) = Fin 640"
  by (subst round_to_float_normal [of 9])
     (simp_all add: power_int_minus round_half_even_def round_at_def)

lemma letterbox_example:
  "letterbox YoloDetector_new
     (\<lambda>m w h. Some \<lparr>rows = h, cols = w, pixel_at = (\<lambda>y x. (1, 2, 3))\<rparr>)
     \<lparr>rows = 2944, cols = 69, pixel_at = (\<lambda>y x. (1, 2, 3))\<rparr> 69 2944
   = Returns (copyTo_rect \<lparr>rows = 640, cols = 14, pixel_at = (\<lambda>y x. (1, 2, 3))\<rparr>
                (gray_canvas 640 640) 313 0 14 640,
              Fin (14588883 / 67108864), 313, 0)"
  by (simp add: letterbox_def YoloDetector_new_def Let_def int_to_float_def round_small_int
        quotient_640_69 quotient_640_2944 product_69_scale product_2944_scale
        float_to_int_def c_div_def)

lemma letterbox_ppyoloe_example:
  "letterbox (YoloDetector_new\<lparr>m_model_type := PPYOLOE\<rparr>)
     (\<lambda>m w h. Some \<lparr>rows = h, cols = w, pixel_at = (\<lambda>y x. (1, 2, 3))\<rparr>)
     \<lparr>rows = 2944, cols = 69, pixel_at = (\<lambda>y x. (1, 2, 3))\<rparr> 69 2944
   = Returns (\<lparr>rows = 640, cols = 640, pixel_at = (\<lambda>y x. (1, 2, 3))\<rparr>, Fin 1, 0, 0)"
  by (simp add: letterbox_def YoloDetector_new_def)

theorem letterbox_transform_witness:
  "(0::int) < 69 \<and> (69::int) \<le> 4194304 \<and> (0::int) < 2944 \<and> (2944::int) \<le> 4194304
   \<and> 0 < m_input_width YoloDetector_new \<and> m_input_width YoloDetector_new \<le> 4194304
   \<and> 0 < m_input_height YoloDetector_new \<and> m_input_height YoloDetector_new \<le> 4194304
   \<and> m_model_type YoloDetector_new \<noteq> PPYOLOE
   \<and> letterbox YoloDetector_new
         (\<lambda>m w h. Some \<lparr>rows = h, cols = w, pixel_at = (\<lambda>y x. (1, 2, 3))\<rparr>)
         \<lparr>rows = 2944, cols = 69, pixel_at = (\<lambda>y x. (1, 2, 3))\<rparr> 69 2944
       = Returns (copyTo_rect \<lparr>rows = 640, cols = 14, pixel_at = (\<lambda>y x. (1, 2, 3))\<rparr>
                    (gray_canvas 640 640) 313 0 14 640,
                  Fin (14588883 / 67108864), 313, 0)
   \<and> Fin (14588883 / 67108864)
       = std_min (fdiv (int_to_float 640) (int_to_float 69))
                 (fdiv (int_to_float 640) (int_to_float 2944))
   \<and> \<bar>14588883 / 67108864 - min (640 / 69) (640 / 2944 :: real)\<bar>
        \<le> min (640 / 69) (640 / 2944) / 2 ^ 24
   \<and> float_to_int (fmul (int_to_float 69) (Fin (14588883 / 67108864))) = Some 14
   \<and> float_to_int (fmul (int_to_float 2944) (Fin (14588883 / 67108864))) = Some 640
   \<and> (313 :: int) = (640 - 14) div 2 \<and> (0 :: int) = (640 - 640) div 2
   \<and> letterbox (YoloDetector_new\<lparr>m_model_type := PPYOLOE\<rparr>)
         (\<lambda>m w h. Some \<lparr>rows = h, cols = w, pixel_at = (\<lambda>y x. (1, 2, 3))\<rparr>)
         \<lparr>rows = 2944, cols = 69, pixel_at = (\<lambda>y x. (1, 2, 3))\<rparr> 69 2944
       = Returns (\<lparr>rows = 640, cols = 640, pixel_at = (\<lambda>y x. (1, 2, 3))\<rparr>, Fin 1, 0, 0)"
proof -
  let ?rs = "\<lambda>(m :: Mat) w h. Some \<lparr>rows = h, cols = w, pixel_at = (\<lambda>y x. (1, 2, 3) :: Vec3b)\<rparr>"
  let ?img = "\<lparr>rows = 2944, cols = 69, pixel_at = (\<lambda>y x. (1, 2, 3) :: Vec3b)\<rparr>"
  let ?s = "Fin (14588883 / 67108864)"
  have w: "(0::int) < 69" "(69::int) \<le> 4194304" and h: "(0::int) < 2944" "(2944::int) \<le> 4194304"
    by simp_all
  have iw: "0 < m_input_width YoloDetector_new" "m_input_width YoloDetector_new \<le> 4194304"
    and ih: "0 < m_input_height YoloDetector_new" "m_input_height YoloDetector_new \<le> 4194304"
    by (simp_all add: YoloDetector_new_def)
  have ty: "m_model_type YoloDetector_new \<noteq> PPYOLOE" by (simp add: YoloDetector_new_def)
  note lb = letterbox_example
  note c8 = letterbox_transform [OF w h iw ih, of ?rs ?img, THEN conjunct2, rule_format, OF lb,
      THEN conjunct2, rule_format, OF ty]
  from c8 have sc: "?s = std_min (fdiv (int_to_float (m_input_width YoloDetector_new))
                                    (int_to_float 69))
                 (fdiv (int_to_float (m_input_height YoloDetector_new)) (int_to_float 2944))"
    by (elim conjE)
  from c8 have "\<exists>s. ?s = Fin s
      \<and> \<bar>s - min (real_of_int (m_input_width YoloDetector_new) / real_of_int 69)
                 (real_of_int (m_input_height YoloDetector_new) / real_of_int 2944)\<bar>
         \<le> min (real_of_int (m_input_width YoloDetector_new) / real_of_int 69)
                (real_of_int (m_input_height YoloDetector_new) / real_of_int 2944) / 2 ^ 24"
    by (elim conjE)
  then obtain s where s1: "?s = Fin s"
    and s2: "\<bar>s - min (real_of_int (m_input_width YoloDetector_new) / real_of_int 69)
                 (real_of_int (m_input_height YoloDetector_new) / real_of_int 2944)\<bar>
         \<le> min (real_of_int (m_input_width YoloDetector_new) / real_of_int 69)
                (real_of_int (m_input_height YoloDetector_new) / real_of_int 2944) / 2 ^ 24"
    by blast
  from s1 have "s = 14588883 / 67108864" by (simp only: cfloat.inject)
  with s2 have cl: "\<bar>14588883 / 67108864
         - min (real_of_int (m_input_width YoloDetector_new) / real_of_int 69)
                 (real_of_int (m_input_height YoloDetector_new) / real_of_int 2944)\<bar>
         \<le> min (real_of_int (m_input_width YoloDetector_new) / real_of_int 69)
                (real_of_int (m_input_height YoloDetector_new) / real_of_int 2944) / 2 ^ 24"
    by (simp only:)
  have nw: "float_to_int (fmul (int_to_float 69) ?s) = Some 14"
    by (simp add: int_to_float_def round_small_int product_69_scale float_to_int_def)
  have nh: "float_to_int (fmul (int_to_float 2944) ?s) = Some 640"
    by (simp add: int_to_float_def round_small_int product_2944_scale float_to_int_def)
  have iwv: "m_input_width YoloDetector_new = 640" and ihv: "m_input_height YoloDetector_new = 640"
    by (simp_all add: YoloDetector_new_def)
  note lb' = letterbox_ppyoloe_example
  show ?thesis
    using w h iw ih ty lb sc [unfolded iwv ihv] cl [unfolded iwv ihv] nw nh lb'
    by simp
qed

section \<open>Properties of the decoders\<close>

subsection \<open>The loops\<close>

lemma for_boxes_done: "\<not> i < n \<Longrightarrow> for_boxes body n i acc = Some acc"
  by (subst for_boxes.simps) simp

lemma for_boxes_step:
  "i < n \<Longrightarrow> for_boxes body n i acc =
     (case body i of
        None \<Rightarrow> None
      | Some None \<Rightarrow> for_boxes body n (i + 1) acc
      | Some (Some det) \<Rightarrow> for_boxes body n (i + 1) (acc @ [det]))"
  by (subst for_boxes.simps) simp

lemma for_boxes_invariant:
  assumes "for_boxes body n i acc = Some ds"
    and "\<forall>d \<in> set acc. P d"
    and "\<And>j d. body j = Some (Some d) \<Longrightarrow> P d"
  shows "\<forall>d \<in> set ds. P d"
  using assms
proof (induction body n i acc rule: for_boxes.induct)
  case (1 body n i detections)
  show ?case
  proof (cases "i < n")
    case False
    with "1.prems" show ?thesis by (subst (asm) for_boxes.simps) simp
  next
    case True
    from "1.prems"(1) True have unf:
      "(case body i of
           None \<Rightarrow> None
         | Some None \<Rightarrow> for_boxes body n (i + 1) detections
         | Some (Some det) \<Rightarrow> for_boxes body n (i + 1) (detections @ [det])) = Some ds"
      by (subst (asm) for_boxes.simps) simp
    show ?thesis
    proof (cases "body i")
      case None
      with unf show ?thesis by simp
    next
      case (Some r)
      show ?thesis
      proof (cases r)
        case None
        with Some unf have "for_boxes body n (i + 1) detections = Some ds" by simp
        from "1.IH"(1) [OF True Some None this "1.prems"(2,3)] show ?thesis .
      next
        case (Some det)
        with \<open>body i = Some r\<close> unf
        have run: "for_boxes body n (i + 1) (detections @ [det]) = Some ds" by simp
        from \<open>body i = Some r\<close> Some have "P det" using "1.prems"(3) by simp
        with "1.prems"(2) have "\<forall>d \<in> set (detections @ [det]). P d" by simp
        from "1.IH"(2) [OF True \<open>body i = Some r\<close> Some run this "1.prems"(3)] show ?thesis .
      qed
    qed
  qed
qed

lemma vec_at_mem: "vec_at v i = Some a \<Longrightarrow> a \<in> set v"
  by (auto simp: vec_at_def split: if_splits)

lemma rd_in_range:
  "k < length out_data \<Longrightarrow> rd out_data (int k) = Some (out_data ! k)"
  by (simp add: rd_def)


subsection \<open>Every detection is clamped\<close>

lemma clamp_to_between:
  assumes "0 \<le> bound" "bound \<le> 16777216"
  shows "between_0_and bound (clamp_to bound v)"
proof -
  have "int_to_float bound = Fin (of_int bound)" using assms by (simp add: int_to_float_exact)
  then show ?thesis
    using assms(1)
    by (cases v) (auto simp: clamp_to_def std_max_def std_min_def between_0_and_def)
qed

lemma clamp_to_not_NaN: "\<bar>bound\<bar> \<le> 16777216 \<Longrightarrow> clamp_to bound v \<noteq> NaN"
  by (cases v) (auto simp: clamp_to_def std_max_def std_min_def int_to_float_exact)

lemma clamped_detection_fields [simp]:
  "class_id (clamped_detection st w h cls conf a b c d) = cls"
  "confidence (clamped_detection st w h cls conf a b c d) = conf"
  "x1 (clamped_detection st w h cls conf a b c d) = clamp_to w a"
  "y1 (clamped_detection st w h cls conf a b c d) = clamp_to h b"
  "x2 (clamped_detection st w h cls conf a b c d) = clamp_to w c"
  "y2 (clamped_detection st w h cls conf a b c d) = clamp_to h d"
  by (simp_all add: clamped_detection_def)

lemma clamped_detection_ok:
  "0 \<le> w \<Longrightarrow> w \<le> 16777216 \<Longrightarrow> 0 \<le> h \<Longrightarrow> h \<le> 16777216 \<Longrightarrow>
   inside_image w h (clamped_detection st w h cls conf a b c d)"
  by (simp add: inside_image_def clamp_to_between)

lemma ppyoloe_box_ok:
  assumes "ppyoloe_box st output w h t i = Some (Some d)"
    and "0 \<le> w" "w \<le> 16777216" "0 \<le> h" "h \<le> 16777216"
  shows "inside_image w h d \<and> \<not> flt (confidence d) t"
  using assms
  by (auto simp: ppyoloe_box_def clamped_detection_ok split: Option.bind_splits if_splits)

lemma yolov8_box_ok:
  assumes "yolov8_box st output tr nb f w h scale px py t i = Some (Some d)"
    and "0 \<le> w" "w \<le> 16777216" "0 \<le> h" "h \<le> 16777216"
  shows "inside_image w h d \<and> \<not> flt (confidence d) t"
  using assms
  by (auto simp: yolov8_box_def clamped_detection_ok split: Option.bind_splits if_splits)

lemma yolox_box_ok:
  assumes "yolox_box std_exp st output f grids w h scale px py t i = Some (Some d)"
    and "0 \<le> w" "w \<le> 16777216" "0 \<le> h" "h \<le> 16777216"
  shows "inside_image w h d \<and> \<not> flt (confidence d) t"
  using assms
  by (auto simp: yolox_box_def yolox_scored_box_def Let_def clamped_detection_ok
           split: Option.bind_splits if_splits prod.splits)

lemma postprocess_ok:
  assumes "postprocess std_sort std_exp st output output_shape output_count w h scale px py t iou_t
             = Some ds"
    and "sorts_descending std_sort"
    and "0 \<le> w" "w \<le> 16777216" "0 \<le> h" "h \<le> 16777216" and "d \<in> set ds"
  shows "inside_image w h d \<and> \<not> flt (confidence d) t"
proof (cases "output_dims output_shape output_count")
  case None
  with assms(1,7) show ?thesis by (simp add: postprocess_def)
next
  case (Some dims)
  let ?P = "\<lambda>d. inside_image w h d \<and> \<not> flt (confidence d) t"
  obtain dim1 dim2 where dims: "dims = (dim1, dim2)" by (cases dims)
  show ?thesis
  proof (cases "m_model_type st")
    case PPYOLOE
    with assms(1) Some dims have dec:
      "ppyoloe_decode st output output_shape output_count dim1 dim2 w h t = Some ds"
      by (simp add: postprocess_def)
    show ?thesis
    proof (cases "snd (ppyoloe_layout output_shape dim1 dim2 output_count) \<le> 0")
      case True
      with dec assms(7) show ?thesis by (simp add: ppyoloe_decode_def Let_def)
    next
      case False
      with dec have "for_boxes (ppyoloe_box st output w h t)
          (snd (ppyoloe_layout output_shape dim1 dim2 output_count)) 0 [] = Some ds"
        by (simp add: ppyoloe_decode_def Let_def)
      from for_boxes_invariant [OF this, of ?P]
      have "\<forall>d \<in> set ds. ?P d"
        using ppyoloe_box_ok [OF _ assms(3-6)] by simp
      with assms(7) show ?thesis by simp
    qed
  next
    case YOLOX
    from assms(1) Some dims YOLOX obtain raw where
      dec: "yolox_decode std_exp st output dim1 dim2 w h scale px py t = Some raw"
      and ds: "nms std_sort raw iou_t = Some ds"
      by (auto simp: postprocess_def split: option.splits)
    from dec have "for_boxes (yolox_box std_exp st output (static_cast_int dim2)
          (yolox_grids (m_input_width st)) w h scale px py t) (static_cast_int dim1) 0 [] = Some raw"
      by (simp add: yolox_decode_def Let_def)
    from for_boxes_invariant [OF this, of ?P]
    have "\<forall>d \<in> set raw. ?P d"
      using yolox_box_ok [OF _ assms(3-6)] by simp
    moreover have "d \<in> set raw" using set_nms_subset [OF assms(2) ds] assms(7) by blast
    ultimately show ?thesis by blast
  next
    case YOLOV8
    from assms(1) Some dims YOLOV8 obtain raw where
      dec: "yolov8_decode st output dim1 dim2 w h scale px py t = Some raw"
      and ds: "nms std_sort raw iou_t = Some ds"
      by (auto simp: postprocess_def split: option.splits)
    from dec obtain tr nb f where
      "for_boxes (yolov8_box st output tr nb f w h scale px py t) nb 0 [] = Some raw"
      by (simp add: yolov8_decode_def Let_def)
    from for_boxes_invariant [OF this, of ?P]
    have "\<forall>d \<in> set raw. ?P d"
      using yolov8_box_ok [OF _ assms(3-6)] by simp
    moreover have "d \<in> set raw" using set_nms_subset [OF assms(2) ds] assms(7) by blast
    ultimately show ?thesis by blast
  qed
qed

lemma detect_ok:
  assumes "detect std_sort std_exp st cv_resize run bgr w h t iou_t = Some ds"
    and "sorts_descending std_sort"
    and "0 \<le> w" "w \<le> 16777216" "0 \<le> h" "h \<le> 16777216" and "d \<in> set ds"
  shows "inside_image w h d \<and> \<not> flt (confidence d) t"
proof (cases "letterbox st cv_resize bgr w h")
  case Undefined
  with assms(1) show ?thesis by (simp add: detect_def preprocess_def)
next
  case Throws
  with assms(1,7) show ?thesis by (simp add: detect_def preprocess_def)
next
  case (Returns lb)
  obtain rf scale px py where lb: "lb = (rf, scale, px, py)" by (cases lb) auto
  show ?thesis
  proof (cases "run (input_values st (to_chw st rf) w h)")
    case None
    with Returns lb assms(1,7) show ?thesis by (simp add: detect_def preprocess_def)
  next
    case out: (Some result)
    obtain output_shape out_data where r: "result = (output_shape, out_data)" by (cases result)
    from assms(1) Returns lb out r have
      pp: "postprocess std_sort std_exp st out_data output_shape (length out_data) w h scale px py t iou_t
             = Some ds"
      by (simp add: detect_def preprocess_def)
    from postprocess_ok [OF pp assms(2-7)] show ?thesis .
  qed
qed


lemma init_example_ppyoloe:
  "snd (init YoloDetector_new
          (Some ([(''image'', [1, 3, 640, 640]), (''scale_factor'', [1, 2])],
                 [(''boxes'', [- 1, 6])])))
   = YoloDetector_new\<lparr>m_initialized := True, m_model_type := PPYOLOE,
        m_input_names_str := [''image'', ''scale_factor''],
        m_output_names_str := [''boxes'']\<rparr>"
  by (simp add: init_def init_input_def init_output_def Let_def YoloDetector_new_def
        static_cast_int_def sublist_code prefix_code)

lemma ppyoloe_example:
  "postprocess std_sort std_exp (YoloDetector_new\<lparr>m_initialized := True, m_model_type := PPYOLOE,
        m_input_names_str := [''image'', ''scale_factor''],
        m_output_names_str := [''boxes'']\<rparr>)
     [Fin 0, Fin 5, Fin 10, Fin 10, Fin 5, Fin 5] [1, 6] output_count 100 80 (Fin 1) 0 0
     (Fin (1 / 4)) (Fin (1 / 2))
   = Some [\<lparr>class_id = 0, class_name = ''person'', confidence = Fin 5,
             x1 = Fin 10, y1 = Fin 10, x2 = Fin 5, y2 = Fin 5\<rparr>]"
  by (simp add: postprocess_def output_dims_def ppyoloe_decode_def ppyoloe_layout_def
        static_cast_int_def for_boxes_step for_boxes_done ppyoloe_box_def rd_def
        float_to_int_def clamped_detection_def clamp_to_def COCO_CLASSES_def
        YoloDetector_new_def int_to_float_def round_small_int)


lemma yolox_example:
  "postprocess insertion_sort rounded_exp (YoloDetector_new\<lparr>m_initialized := True, m_input_width := 32,
        m_input_height := 32, m_num_classes := 2\<rparr>)
     ([Fin 0, Fin 0, Fin 0, Fin 0, Fin 1, Fin 1, Fin 0] @ replicate 140 (Fin 0)) [1, 21, 7]
     output_count 100 80 (Fin (1 / 2)) 0 4 (Fin (1 / 4)) (Fin (1 / 2))
   = Some [\<lparr>class_id = 0, class_name = ''person'', confidence = Fin 1,
             x1 = Fin 0, y1 = Fin 0, x2 = Fin 8, y2 = Fin 0\<rparr>]"
  by (simp add: postprocess_def output_dims_def yolox_decode_def yolox_box_def
        yolox_scored_box_def
        yolox_best_class_def class_loop.simps yolox_grids_def grid_cells_def c_div_def vec_at_def
        static_cast_int_def for_boxes_step for_boxes_done rd_def nth_append
        clamped_detection_def clamp_to_def COCO_CLASSES_def YoloDetector_new_def Let_def
        nms_def comparator_strict_weak_def insertion_sort_def suppress_later_def upt_conv_Cons
        int_to_float_def round_small_int fsub_def)

lemma ppyoloe_nan_example:
  "postprocess std_sort std_exp (YoloDetector_new\<lparr>m_initialized := True, m_model_type := PPYOLOE\<rparr>)
     [Fin 0, NaN, Fin (- 5), Fin 10, PosInf, NaN] [1, 6] output_count 100 80 (Fin 1) 0 0
     (Fin (1 / 4)) (Fin (1 / 2))
   = Some [\<lparr>class_id = 0, class_name = ''person'', confidence = NaN,
             x1 = Fin 0, y1 = Fin 10, x2 = Fin 100, y2 = Fin 0\<rparr>]"
  by (simp add: postprocess_def output_dims_def ppyoloe_decode_def ppyoloe_layout_def
        static_cast_int_def for_boxes_step for_boxes_done ppyoloe_box_def rd_def
        float_to_int_def clamped_detection_def clamp_to_def std_max_def std_min_def
        COCO_CLASSES_def YoloDetector_new_def int_to_float_def round_small_int)

lemma ppyoloe_path_example:
  "detectFromPath insertion_sort rounded_exp
     (snd (init YoloDetector_new
          (Some ([(''image'', [1, 3, 640, 640]), (''scale_factor'', [1, 2])],
                 [(''boxes'', [- 1, 6])]))))
     (\<lambda>path. Some \<lparr>rows = 80, cols = 100, pixel_at = (\<lambda>y x. (0, 0, 0))\<rparr>)
     (\<lambda>m w h. Some \<lparr>rows = h, cols = w, pixel_at = (\<lambda>y x. (0, 0, 0))\<rparr>)
     (\<lambda>inputs. Some ([1, 6], [Fin 0, Fin (7 / 8), Fin (- 5), Fin 10, Fin 700, Fin 50]))
     ''a.jpg'' (Fin (1 / 4)) (Fin (1 / 2))
   = ResultJson [\<lparr>class_id = 0, class_name = ''person'', confidence = Fin (7 / 8),
                   x1 = Fin 0, y1 = Fin 10, x2 = Fin 100, y2 = Fin 50\<rparr>] 100 80"
  unfolding init_example_ppyoloe
  by (simp add: detectFromPath_def detect_def preprocess_def letterbox_def toJson_def
        postprocess_def output_dims_def ppyoloe_decode_def ppyoloe_layout_def
        static_cast_int_def for_boxes_step for_boxes_done ppyoloe_box_def rd_def
        float_to_int_def clamped_detection_def clamp_to_def COCO_CLASSES_def
        YoloDetector_new_def int_to_float_def round_small_int)


section \<open>Properties of the PP-YOLOE decoder\<close>

lemma ppyoloe_box_row:
  assumes "6 * k + 5 < length out_data"
  shows "ppyoloe_box st out_data w h t (int k) =
     (case float_to_int (out_data ! (6 * k)) of
        None \<Rightarrow> None
      | Some cls \<Rightarrow>
          if flt (out_data ! (6 * k + 1)) t \<or> cls < 0 then Some None
          else Some (Some (clamped_detection st w h cls
                 (out_data ! (6 * k + 1)) (out_data ! (6 * k + 2)) (out_data ! (6 * k + 3))
                 (out_data ! (6 * k + 4)) (out_data ! (6 * k + 5)))))"
proof -
  have r: "rd out_data (int k * 6 + int j) = Some (out_data ! (6 * k + j))" if "j \<le> 5" for j
  proof -
    have "int k * 6 + int j = int (6 * k + j)" by simp
    moreover have "6 * k + j < length out_data" using assms that by simp
    ultimately show ?thesis by (simp only: rd_in_range)
  qed
  show ?thesis
    using r [of 0] r [of 1] r [of 2] r [of 3] r [of 4] r [of 5]
    by (simp add: ppyoloe_box_def split: option.splits)
qed

lemma for_boxes_ppyoloe:
  assumes "length out_data = 6 * N" and "k \<le> N"
  shows "for_boxes (ppyoloe_box st out_data w h t) (int N) (int k) acc =
     (if \<forall>i \<in> set [k..<N]. float_to_int (out_data ! (6 * i)) \<noteq> None
      then Some (acc @ map (\<lambda>i. clamped_detection st w h (the (float_to_int (out_data ! (6 * i))))
                          (out_data ! (6 * i + 1)) (out_data ! (6 * i + 2)) (out_data ! (6 * i + 3))
                          (out_data ! (6 * i + 4)) (out_data ! (6 * i + 5)))
                 (filter (\<lambda>i. \<not> flt (out_data ! (6 * i + 1)) t
                              \<and> \<not> the (float_to_int (out_data ! (6 * i))) < 0) [k..<N]))
      else None)"
  using assms(2)
proof (induction "N - k" arbitrary: k acc)
  case 0
  then have "k = N" by simp
  then show ?case by (simp add: for_boxes_done)
next
  case (Suc m)
  then have lt: "k < N" and m: "m = N - Suc k" and le: "Suc k \<le> N" by simp_all
  have up: "[k..<N] = k # [Suc k..<N]" using lt by (simp add: upt_conv_Cons)
  have row: "6 * k + 5 < length out_data" using lt assms(1) by simp
  have lt': "int k < int N" using lt by simp
  have s: "int k + 1 = int (Suc k)" by simp
  note ih = Suc.hyps(1) [OF m le]
  show ?case
  proof (cases "float_to_int (out_data ! (6 * k))")
    case None
    then show ?thesis
      unfolding for_boxes_step [OF lt'] ppyoloe_box_row [OF row] up by simp
  next
    case (Some cls)
    then show ?thesis
      unfolding for_boxes_step [OF lt'] ppyoloe_box_row [OF row] s up
      by (auto simp add: ih simp del: of_nat_Suc)
  qed
qed


lemma upt_2: "[0..<2] = [0, Suc 0]"
  by (simp add: upt_conv_Cons)

lemma upt_3: "[0..<3] = [0, Suc 0, Suc (Suc 0)]"
  by (simp add: upt_conv_Cons)


lemma ppyoloe_transposed_example:
  "postprocess insertion_sort rounded_exp (YoloDetector_new\<lparr>m_initialized := True, m_model_type := PPYOLOE\<rparr>) [Fin 0, Fin 1, Fin (7 / 8), Fin (3 / 4), Fin 10, Fin 20, Fin 10, Fin 20, Fin 50, Fin 60, Fin 50, Fin 60] [1, 6, 2] output_count 100 100 (Fin 1) 0 0 (Fin (1 / 4)) (Fin (1 / 2))
       = Some [\<lparr>class_id = 0, class_name = ''person'', confidence = Fin 1,
          x1 = Fin (7 / 8), y1 = Fin (3 / 4), x2 = Fin 10, y2 = Fin 20\<rparr>,
               \<lparr>class_id = 10, class_name = ''fire hydrant'', confidence = Fin 20,
          x1 = Fin 50, y1 = Fin 60, x2 = Fin 50, y2 = Fin 60\<rparr>]"
  by (simp add: postprocess_def output_dims_def ppyoloe_decode_def ppyoloe_layout_def
        static_cast_int_def for_boxes_step for_boxes_done ppyoloe_box_def rd_def
        float_to_int_def clamped_detection_def clamp_to_def COCO_CLASSES_def
        YoloDetector_new_def int_to_float_def round_small_int)


section \<open>Properties of the class names\<close>

lemma class_loop_scan:
  "k \<le> m \<Longrightarrow>
   class_loop (\<lambda>c. rd output (base + c)) (int m) (int k) best =
     (if \<forall>c \<in> set [k..<m]. 0 \<le> base + int c \<and> base + int c < int (length output)
      then Some (fold (\<lambda>c best. if flt (fst best) (output ! nat (base + int c))
                                 then (output ! nat (base + int c), int c) else best)
                   [k..<m] best)
      else None)"
proof (induction "m - k" arbitrary: k best)
  case 0
  then have "k = m" by simp
  then show ?case by (subst class_loop.simps) simp
next
  case (Suc d)
  then have lt: "k < m" and d: "d = m - Suc k" and le: "Suc k \<le> m" by simp_all
  have up: "[k..<m] = k # [Suc k..<m]" using lt by (simp add: upt_conv_Cons)
  have lt': "int k < int m" using lt by simp
  have s: "int k + 1 = int (Suc k)" by simp
  have step: "class_loop (\<lambda>c. rd output (base + c)) (int m) (int k) best =
     (case rd output (base + int k) of
        None \<Rightarrow> None
      | Some score \<Rightarrow>
          class_loop (\<lambda>c. rd output (base + c)) (int m) (int (Suc k))
            (if flt (fst best) score then (score, int k) else best))"
    by (subst class_loop.simps) (simp only: lt' if_True s)
  note ih = Suc.hyps(1) [OF d le]
  show ?case
  proof (cases "0 \<le> base + int k \<and> base + int k < int (length output)")
    case True
    then have r: "rd output (base + int k) = Some (output ! nat (base + int k))"
      by (simp add: rd_def)
    show ?thesis
      unfolding step r using True
      by (simp add: ih up del: of_nat_Suc)
  next
    case False
    then have r: "rd output (base + int k) = None" by (auto simp: rd_def)
    show ?thesis
      unfolding step r using False lt by (auto simp: up)
  qed
qed

lemma setClassNames_count:
  "length names < 2147483648 \<Longrightarrow> m_num_classes (setClassNames st names) = int (length names)"
  by (simp add: setClassNames_def static_cast_int_def)

lemma yolox_best_class_scan:
  assumes "length names < 2147483648"
  shows "yolox_best_class (setClassNames st names) output features i =
            scan_exactly output (i * features + 5) (length names)"
  unfolding yolox_best_class_def setClassNames_count [OF assms] scan_exactly_def
  using class_loop_scan [of 0 "length names" "output" "i * features + 5" "(Fin 0, 0)"]
  by simp

lemma yolox_box_scan:
  assumes "length names < 2147483648"
  shows "yolox_box std_exp (setClassNames st names) output features grids w h scale px py t i =
     (case rd output (i * features + 4) of
        None \<Rightarrow> None
      | Some objectness \<Rightarrow>
          if flt objectness t then Some None
          else (case scan_exactly output (i * features + 5) (length names) of
                  None \<Rightarrow> None
                | Some best \<Rightarrow>
                    yolox_scored_box std_exp (setClassNames st names) output features grids w h
                      scale px py t i objectness best))"
  unfolding yolox_box_def yolox_best_class_scan [OF assms]
  by (simp split: option.splits)

lemma yolox_scored_box_fields:
  assumes "yolox_scored_box std_exp st output features grids w h scale px py t i objectness best
             = Some (Some d)"
  shows "class_id d = snd best \<and> confidence d = fmul objectness (fst best)
       \<and> \<not> flt (confidence d) t"
  using assms
  by (auto simp: yolox_scored_box_def Let_def clamped_detection_def
           split: Option.bind_splits if_splits prod.splits)

lemma scan_fold_class:
  "0 \<le> snd best \<Longrightarrow> snd best < int m \<or> (snd best = 0) \<Longrightarrow>
   0 \<le> snd (fold (\<lambda>c best. if flt (fst best) (f c) then (f c, int c) else best) [k..<m] best)
   \<and> (snd (fold (\<lambda>c best. if flt (fst best) (f c) then (f c, int c) else best) [k..<m] best) < int m
      \<or> snd (fold (\<lambda>c best. if flt (fst best) (f c) then (f c, int c) else best) [k..<m] best) = 0)"
proof (induction "m - k" arbitrary: k best)
  case 0
  then show ?case by simp
next
  case (Suc d)
  then have lt: "k < m" and d: "d = m - Suc k" by simp_all
  have up: "[k..<m] = k # [Suc k..<m]" using lt by (simp add: upt_conv_Cons)
  show ?case
    unfolding up using Suc.hyps(1) [OF d] Suc.prems lt by simp
qed

lemma scan_exactly_class:
  assumes "scan_exactly output base n = Some best"
  shows "0 \<le> snd best \<and> (snd best < int n \<or> snd best = 0)"
proof -
  from assms have "best = fold (\<lambda>c best. if flt (fst best) (output ! nat (base + int c))
                                 then (output ! nat (base + int c), int c) else best)
                   [0..<n] (Fin 0, 0)"
    by (simp add: scan_exactly_def split: if_splits)
  with scan_fold_class [of "(Fin 0, 0)" n "\<lambda>c. output ! nat (base + int c)" 0]
  show ?thesis by simp
qed

text \<open>
  Claim C10, as amended. \<^const>\<open>setClassNames\<close> with a non-empty list of \<open>n\<close> names (\<open>n\<close>
  within the range of \<^verbatim>\<open>int\<close>) replaces the table of class names and overwrites the class
  count with \<open>n\<close>, whatever count \<^const>\<open>init\<close> had found; all other fields of the detector
  stay as they are; \<^verbatim>\<open>yolo_set_classes\<close> makes this call when the names it parses are not
  empty. From then on a round of the YOLOX decoder reads the objectness of its box; if this
  is below the confidence threshold the round ends and no class score of the box is read;
  otherwise exactly the \<open>n\<close> class scores of the box are scanned. Every detection that a
  decode then returns has the class and the confidence that come from such a scan of \<open>n\<close>
  scores, and a class below \<open>n\<close>.
\<close>

theorem setClassNames_class_count:
  assumes "names \<noteq> []" and "length names < 2147483648"
  shows "m_class_names (setClassNames st names) = names
    \<and> m_num_classes (setClassNames st names) = int (length names)
    \<and> m_initialized (setClassNames st names) = m_initialized st
    \<and> m_input_width (setClassNames st names) = m_input_width st
    \<and> m_input_height (setClassNames st names) = m_input_height st
    \<and> m_model_type (setClassNames st names) = m_model_type st
    \<and> m_input_names_str (setClassNames st names) = m_input_names_str st
    \<and> m_output_names_str (setClassNames st names) = m_output_names_str st
    \<and> (\<forall>json. parse_names json = names \<longrightarrow>
          yolo_set_classes (Some st) json = Some (setClassNames st names))
    \<and> (\<forall>output features grids w h scale px py t i.
          yolox_box std_exp (setClassNames st names) output features grids w h scale px py t i =
            (case rd output (i * features + 4) of
               None \<Rightarrow> None
             | Some objectness \<Rightarrow>
                 if flt objectness t then Some None
                 else (case scan_exactly output (i * features + 5) (length names) of
                         None \<Rightarrow> None
                       | Some best \<Rightarrow>
                           yolox_scored_box std_exp (setClassNames st names) output features grids w h
                             scale px py t i objectness best)))
    \<and> (\<forall>std_sort std_exp output output_shape output_count w h scale px py t iou_t ds d.
          sorts_descending std_sort \<and> m_model_type st = YOLOX
        \<and> postprocess std_sort std_exp (setClassNames st names) output output_shape output_count
              w h scale px py t iou_t = Some ds
        \<and> d \<in> set ds \<longrightarrow>
          (\<exists>dim1 dim2 i objectness best.
              output_dims output_shape output_count = Some (dim1, dim2)
            \<and> rd output (i * static_cast_int dim2 + 4) = Some objectness
            \<and> \<not> flt objectness t
            \<and> scan_exactly output (i * static_cast_int dim2 + 5) (length names) = Some best
            \<and> class_id d = snd best
            \<and> confidence d = fmul objectness (fst best)
            \<and> 0 \<le> class_id d \<and> class_id d < int (length names)))"
proof -
  let ?st = "setClassNames st names"
  have n: "m_num_classes ?st = int (length names)"
    using assms(2) by (rule setClassNames_count)
  have ffi: "yolo_set_classes (Some st) json = Some ?st"
    if "parse_names json = names" for json
    using that assms(1) by (simp add: yolo_set_classes_def Let_def)
  note box = yolox_box_scan [OF assms(2), of _ st]
  have post: "\<exists>dim1 dim2 i objectness best.
              output_dims output_shape output_count = Some (dim1, dim2)
            \<and> rd out_data (i * static_cast_int dim2 + 4) = Some objectness
            \<and> \<not> flt objectness t
            \<and> scan_exactly out_data (i * static_cast_int dim2 + 5) (length names) = Some best
            \<and> class_id d = snd best
            \<and> confidence d = fmul objectness (fst best)
            \<and> 0 \<le> class_id d \<and> class_id d < int (length names)"
    if s: "sorts_descending std_sort" and x: "m_model_type st = YOLOX"
      and p: "postprocess std_sort std_exp ?st out_data output_shape output_count
              w h scale px py t iou_t = Some ds"
      and d: "d \<in> set ds"
    for std_sort std_exp out_data output_shape output_count w h scale px py t iou_t ds d
  proof -
    have ty: "m_model_type ?st = YOLOX" using x by (simp add: setClassNames_def)
    from p d obtain dim1 dim2 where
      dims: "output_dims output_shape output_count = Some (dim1, dim2)"
      by (cases "output_dims output_shape output_count") (auto simp: postprocess_def)
    from p dims ty obtain raw where
      dec: "yolox_decode std_exp ?st out_data dim1 dim2 w h scale px py t = Some raw"
      and ds: "nms std_sort raw iou_t = Some ds"
      by (auto simp: postprocess_def split: option.splits)
    let ?f = "static_cast_int dim2"
    let ?P = "\<lambda>d. \<exists>i objectness best.
              rd out_data (i * ?f + 4) = Some objectness
            \<and> \<not> flt objectness t
            \<and> scan_exactly out_data (i * ?f + 5) (length names) = Some best
            \<and> class_id d = snd best
            \<and> confidence d = fmul objectness (fst best)
            \<and> 0 \<le> class_id d \<and> class_id d < int (length names)"
    from dec have loop: "for_boxes (yolox_box std_exp ?st out_data ?f (yolox_grids (m_input_width ?st))
          w h scale px py t) (static_cast_int dim1) 0 [] = Some raw"
      by (simp add: yolox_decode_def Let_def)
    have body: "?P e"
      if b: "yolox_box std_exp ?st out_data ?f (yolox_grids (m_input_width ?st))
               w h scale px py t j = Some (Some e)" for j e
    proof -
      from b [unfolded box] obtain objectness best where
        o: "rd out_data (j * ?f + 4) = Some objectness" and nb: "\<not> flt objectness t"
        and sc: "scan_exactly out_data (j * ?f + 5) (length names) = Some best"
        and e: "yolox_scored_box std_exp ?st out_data ?f (yolox_grids (m_input_width ?st))
                  w h scale px py t j objectness best = Some (Some e)"
        by (auto split: option.splits if_splits)
      from yolox_scored_box_fields [OF e]
      have f: "class_id e = snd best" "confidence e = fmul objectness (fst best)" by simp_all
      from scan_exactly_class [OF sc] assms(1)
      have r: "0 \<le> snd best \<and> snd best < int (length names)" by auto
      show ?thesis
        by (rule exI [of _ j], rule exI [of _ objectness], rule exI [of _ best])
           (simp add: o nb sc f r)
    qed
    from for_boxes_invariant [OF loop, of ?P] body
    have "\<forall>e \<in> set raw. ?P e" by simp
    moreover have "d \<in> set raw" using set_nms_subset [OF s ds] d by blast
    ultimately have "?P d" by blast
    with dims show ?thesis by blast
  qed
  show ?thesis
    apply (intro conjI)
    subgoal by (simp add: setClassNames_def)
    subgoal by (rule n)
    subgoal by (simp add: setClassNames_def)
    subgoal by (simp add: setClassNames_def)
    subgoal by (simp add: setClassNames_def)
    subgoal by (simp add: setClassNames_def)
    subgoal by (simp add: setClassNames_def)
    subgoal by (simp add: setClassNames_def)
    subgoal using ffi by blast
    subgoal using box by blast
    subgoal using post by blast
    done
qed

lemma parse_names_example:
  "parse_names (CHR ''['' # CHR 0x22 # ''cat'' @ CHR 0x22 # CHR '','' # CHR 0x22 # ''dog''
                  @ [CHR 0x22, CHR '']''])
   = [''cat'', ''dog'']"
  by (simp add: parse_names.simps)

lemma round_to_float_half: "round_to_float (1 / 2) = Fin (1 / 2)"
  by (subst round_to_float_normal [of "- 1"])
     (simp_all add: power_int_minus round_half_even_def round_at_def)

lemma init_example_three_classes:
  "snd (init YoloDetector_new
          (Some ([(''images'', [1, 3, 32, 32])], [(''output'', [1, 21, 8])])))
   = YoloDetector_new\<lparr>m_initialized := True, m_input_width := 32, m_input_height := 32,
        m_num_classes := 3, m_input_names_str := [''images''],
        m_output_names_str := [''output'']\<rparr>"
  by (simp add: init_def init_input_def init_output_def Let_def YoloDetector_new_def
        static_cast_int_def sublist_code prefix_code)

lemma yolox_two_names_example:
  "postprocess insertion_sort rounded_exp
     (setClassNames (YoloDetector_new\<lparr>m_initialized := True, m_input_width := 32,
        m_input_height := 32, m_num_classes := 3, m_input_names_str := [''images''],
        m_output_names_str := [''output'']\<rparr>) [''cat'', ''dog''])
     ([Fin 0, Fin 0, Fin 0, Fin 0, Fin 1, Fin (1 / 4), Fin (1 / 2), Fin (3 / 4)]
        @ replicate 160 (Fin 0)) [1, 21, 8] output_count
     100 80 (Fin 1) 0 0 (Fin (1 / 4)) (Fin (1 / 2))
   = Some [\<lparr>class_id = 1, class_name = ''dog'', confidence = Fin (1 / 2),
             x1 = Fin 0, y1 = Fin 0, x2 = Fin 4, y2 = Fin 4\<rparr>]"
  by (simp add: postprocess_def output_dims_def yolox_decode_def yolox_box_def
        yolox_scored_box_def setClassNames_def
        yolox_best_class_def class_loop.simps yolox_grids_def grid_cells_def c_div_def vec_at_def
        static_cast_int_def for_boxes_step for_boxes_done rd_def nth_append
        clamped_detection_def clamp_to_def YoloDetector_new_def Let_def
        nms_def comparator_strict_weak_def insertion_sort_def suppress_later_def upt_conv_Cons
        int_to_float_def round_small_int round_to_float_half fsub_def)

theorem setClassNames_class_count_witness:
  "[''cat'', ''dog''] \<noteq> [] \<and> length [''cat'', ''dog''] < 2147483648
   \<and> sorts_descending insertion_sort
   \<and> m_model_type (snd (init YoloDetector_new
          (Some ([(''images'', [1, 3, 32, 32])], [(''output'', [1, 21, 8])])))) = YOLOX
   \<and> m_num_classes (snd (init YoloDetector_new
          (Some ([(''images'', [1, 3, 32, 32])], [(''output'', [1, 21, 8])])))) = 3
   \<and> m_num_classes (setClassNames (snd (init YoloDetector_new
          (Some ([(''images'', [1, 3, 32, 32])], [(''output'', [1, 21, 8])]))))
        [''cat'', ''dog'']) = 2
   \<and> yolo_set_classes (Some (snd (init YoloDetector_new
          (Some ([(''images'', [1, 3, 32, 32])], [(''output'', [1, 21, 8])])))))
        (CHR ''['' # CHR 0x22 # ''cat'' @ CHR 0x22 # CHR '','' # CHR 0x22 # ''dog''
           @ [CHR 0x22, CHR '']''])
       = Some (setClassNames (snd (init YoloDetector_new
          (Some ([(''images'', [1, 3, 32, 32])], [(''output'', [1, 21, 8])]))))
            [''cat'', ''dog''])
   \<and> scan_exactly ([Fin 0, Fin 0, Fin 0, Fin 0, Fin 1, Fin (1 / 4), Fin (1 / 2), Fin (3 / 4)]
        @ replicate 160 (Fin 0)) (0 * 8 + 5) 2 = Some (Fin (1 / 2), 1)
   \<and> postprocess insertion_sort rounded_exp
        (setClassNames (snd (init YoloDetector_new
          (Some ([(''images'', [1, 3, 32, 32])], [(''output'', [1, 21, 8])]))))
            [''cat'', ''dog''])
        ([Fin 0, Fin 0, Fin 0, Fin 0, Fin 1, Fin (1 / 4), Fin (1 / 2), Fin (3 / 4)]
           @ replicate 160 (Fin 0)) [1, 21, 8] 168
        100 80 (Fin 1) 0 0 (Fin (1 / 4)) (Fin (1 / 2))
      = Some [\<lparr>class_id = 1, class_name = ''dog'', confidence = Fin (1 / 2),
                x1 = Fin 0, y1 = Fin 0, x2 = Fin 4, y2 = Fin 4\<rparr>]
   \<and> class_id \<lparr>class_id = 1, class_name = ''dog'', confidence = Fin (1 / 2),
                x1 = Fin 0, y1 = Fin 0, x2 = Fin 4, y2 = Fin 4\<rparr> < 2"
proof -
  let ?st = "snd (init YoloDetector_new
          (Some ([(''images'', [1, 3, 32, 32])], [(''output'', [1, 21, 8])])))"
  let ?out = "[Fin 0, Fin 0, Fin 0, Fin 0, Fin 1, Fin (1 / 4), Fin (1 / 2), Fin (3 / 4)]
        @ replicate 160 (Fin 0)"
  let ?D = "\<lparr>class_id = 1, class_name = ''dog'', confidence = Fin (1 / 2),
                x1 = Fin 0, y1 = Fin 0, x2 = Fin 4, y2 = Fin 4\<rparr>"
  have ne: "[''cat'', ''dog''] \<noteq> []" and len: "length [''cat'', ''dog''] < 2147483648"
    by simp_all
  note c10 = setClassNames_class_count [OF ne len, of ?st rounded_exp]
  have s: "sorts_descending insertion_sort" by (rule sorts_descending_insertion_sort)
  have ty: "m_model_type ?st = YOLOX" and n3: "m_num_classes ?st = 3"
    unfolding init_example_three_classes by (simp_all add: YoloDetector_new_def)
  from c10 have n2: "m_num_classes (setClassNames ?st [''cat'', ''dog'']) = 2" by simp
  from c10 parse_names_example have ffi: "yolo_set_classes (Some ?st)
        (CHR ''['' # CHR 0x22 # ''cat'' @ CHR 0x22 # CHR '','' # CHR 0x22 # ''dog''
           @ [CHR 0x22, CHR '']'']) = Some (setClassNames ?st [''cat'', ''dog''])"
    by simp
  have u: "[0..<2] = [0, Suc 0]" by (simp add: upt_conv_Cons)
  have sc: "scan_exactly ?out (0 * 8 + 5) 2 = Some (Fin (1 / 2), 1)"
    by (simp add: scan_exactly_def u)
  have pp: "postprocess insertion_sort rounded_exp (setClassNames ?st [''cat'', ''dog'']) ?out [1, 21, 8] 168
        100 80 (Fin 1) 0 0 (Fin (1 / 4)) (Fin (1 / 2)) = Some [?D]"
    unfolding init_example_three_classes by (rule yolox_two_names_example)
  from c10 have "\<forall>std_sort std_exp output output_shape output_count w h scale px py t iou_t ds d.
          sorts_descending std_sort \<and> m_model_type ?st = YOLOX
        \<and> postprocess std_sort std_exp (setClassNames ?st [''cat'', ''dog'']) output output_shape
              output_count w h scale px py t iou_t = Some ds
        \<and> d \<in> set ds \<longrightarrow>
          (\<exists>dim1 dim2 i objectness best.
              output_dims output_shape output_count = Some (dim1, dim2)
            \<and> rd output (i * static_cast_int dim2 + 4) = Some objectness
            \<and> \<not> flt objectness t
            \<and> scan_exactly output (i * static_cast_int dim2 + 5) (length [''cat'', ''dog''])
                = Some best
            \<and> class_id d = snd best
            \<and> confidence d = fmul objectness (fst best)
            \<and> 0 \<le> class_id d \<and> class_id d < int (length [''cat'', ''dog'']))"
    by (elim conjE)
  from this [rule_format, of insertion_sort rounded_exp ?out "[1, 21, 8]" 168 100 80 "Fin 1" 0 0
      "Fin (1 / 4)" "Fin (1 / 2)" "[?D]" ?D] s ty pp
  have below: "class_id ?D < 2" by auto
  from ne len s ty n3 n2 ffi sc pp below show ?thesis by blast
qed

text \<open>
  The claim as it was stated fails for a box below the objectness threshold: its round ends
  before the loop over the classes. On a tensor that ends after the objectness of its one
  box, the decode with two class names returns no detection, where a scan of two class
  scores would read outside the tensor; and for a box with objectness 0 the round ends in
  the same way whatever the two class scores are.
\<close>

theorem class_scan_skipped_counterexample:
  "m_num_classes (setClassNames YoloDetector_new [''cat'', ''dog'']) = 2
   \<and> flt (Fin 0) (Fin (1 / 4))
   \<and> scan_exactly [Fin 0, Fin 0, Fin 0, Fin 0, Fin 0] (0 * 5 + 5) 2 = None
   \<and> yolox_box rounded_exp (setClassNames YoloDetector_new [''cat'', ''dog''])
        [Fin 0, Fin 0, Fin 0, Fin 0, Fin 0] 5 (yolox_grids 640)
        100 80 (Fin 1) 0 0 (Fin (1 / 4)) 0 = Some None
   \<and> postprocess insertion_sort rounded_exp (setClassNames YoloDetector_new [''cat'', ''dog''])
        [Fin 0, Fin 0, Fin 0, Fin 0, Fin 0] [1, 1, 5] 5
        100 80 (Fin 1) 0 0 (Fin (1 / 4)) (Fin (1 / 2)) = Some []
   \<and> (\<forall>s0 s1. yolox_box rounded_exp (setClassNames YoloDetector_new [''cat'', ''dog''])
        [Fin 0, Fin 0, Fin 0, Fin 0, Fin 0, s0, s1] 7 (yolox_grids 640)
        100 80 (Fin 1) 0 0 (Fin (1 / 4)) 0 = Some None)"
  by (simp add: setClassNames_def YoloDetector_new_def static_cast_int_def scan_exactly_def
        yolox_box_def rd_def postprocess_def output_dims_def yolox_decode_def
        for_boxes_step for_boxes_done nms_def comparator_strict_weak_def insertion_sort_def
        upt_conv_Cons)
     blast

section \<open>Properties of the YOLOX grid\<close>

lemma length_grid_cells:
  "length (grid_cells input_width stride) =
     nat (c_div input_width stride) * nat (c_div input_width stride)"
  by (simp add: grid_cells_def Let_def length_concat comp_def sum_list_triv)

lemma length_yolox_grids:
  "length (yolox_grids input_width) =
     nat (c_div input_width 8) * nat (c_div input_width 8)
   + nat (c_div input_width 16) * nat (c_div input_width 16)
   + nat (c_div input_width 32) * nat (c_div input_width 32)"
  by (simp add: yolox_grids_def length_grid_cells)

lemma init_example_nonsquare:
  "snd (init YoloDetector_new
          (Some ([(''images'', [1, 3, 64, 32])], [(''output'', [1, 42, 7])])))
   = YoloDetector_new\<lparr>m_initialized := True, m_input_width := 32, m_input_height := 64,
        m_num_classes := 2, m_input_names_str := [''images''],
        m_output_names_str := [''output'']\<rparr>"
  by (simp add: init_def init_input_def init_output_def Let_def YoloDetector_new_def
        static_cast_int_def sublist_code prefix_code)

lemma yolox_nonsquare_example:
  "postprocess std_sort std_exp (YoloDetector_new\<lparr>m_initialized := True, m_input_width := 32,
        m_input_height := 64, m_num_classes := 2, m_input_names_str := [''images''],
        m_output_names_str := [''output'']\<rparr>)
     (replicate 147 (Fin 0) @ [Fin 0, Fin 0, Fin 0, Fin 0, Fin 1, Fin 1, Fin 0]
        @ replicate 140 (Fin 0)) [1, 42, 7] output_count
     32 64 (Fin 1) 0 0 (Fin (1 / 4)) (Fin (1 / 2)) = None"
  by (simp add: postprocess_def output_dims_def yolox_decode_def yolox_box_def
        yolox_scored_box_def yolox_best_class_def class_loop.simps length_yolox_grids c_div_def
        vec_at_def static_cast_int_def for_boxes_step for_boxes_done rd_def nth_append
        YoloDetector_new_def Let_def)


text \<open>
  Claim C7 says that the list of grid cells has as many entries as the output has boxes, so
  that the lookups at every box index are inside the list. The decoder builds the list from
  the input width alone, \<open>(W / 8)\<^sup>2 + (W / 16)\<^sup>2 + (W / 32)\<^sup>2\<close> cells, and never compares
  its length with the number of boxes. For the input of 640 by 640 of the comment in the
  source the list has the 8400 entries of the model. For a YOLOX model with an input 32 wide
  and 64 high, whose output has \<open>8 \<cdot> 4 + 4 \<cdot> 2 + 2 \<cdot> 1 = 42\<close> boxes, the list has 21 entries:
  the lookup at box 21 is outside it, and decoding a tensor whose box 21 passes the
  thresholds is undefined.
\<close>

theorem yolox_grid_lookup_out_of_bounds:
  "length (yolox_grids 640) = 8400
   \<and> m_model_type (snd (init YoloDetector_new
          (Some ([(''images'', [1, 3, 64, 32])], [(''output'', [1, 42, 7])])))) = YOLOX
   \<and> m_input_width (snd (init YoloDetector_new
          (Some ([(''images'', [1, 3, 64, 32])], [(''output'', [1, 42, 7])])))) = 32
   \<and> m_input_height (snd (init YoloDetector_new
          (Some ([(''images'', [1, 3, 64, 32])], [(''output'', [1, 42, 7])])))) = 64
   \<and> length (yolox_grids 32) = 21
   \<and> vec_at (yolox_grids 32) 21 = (None :: (cfloat \<times> cfloat \<times> cfloat) option)
   \<and> postprocess insertion_sort rounded_exp (snd (init YoloDetector_new
          (Some ([(''images'', [1, 3, 64, 32])], [(''output'', [1, 42, 7])]))))
        (replicate 147 (Fin 0) @ [Fin 0, Fin 0, Fin 0, Fin 0, Fin 1, Fin 1, Fin 0]
           @ replicate 140 (Fin 0)) [1, 42, 7] 294
        32 64 (Fin 1) 0 0 (Fin (1 / 4)) (Fin (1 / 2)) = None"
  unfolding init_example_nonsquare yolox_nonsquare_example
  by (simp add: length_yolox_grids c_div_def vec_at_def YoloDetector_new_def)


section \<open>Properties of the detection calls\<close>

lemma toJson_not_error: "toJson detections w h \<noteq> ErrorJson c"
  by (cases detections) (simp_all add: toJson_def)






end
